theory Spec2Isabelle
  imports Complex_Main
begin

section \<open>Penalty stiffness of a base-flange connection (kCLTxycte.pyx)\<close>

text \<open>
  The module has three procedures, \<open>fkCBFxcte11\<close>, \<open>fkCBFxycte12\<close> and
  \<open>fkCBFycte22\<close>. Each one unpacks the panels, normalises the position of the edge,
  allocates three zero-filled buffers of \<open>fdim\<close> slots (row indices, column indices,
  values), fills them in four nested loops through a running counter \<open>c\<close>, and hands
  the buffers to the sparse-matrix constructor.

  Conventions of the embedding:
  \<^item> a C \<open>double\<close> is a \<^typ>\<open>real\<close>: the theorems are about the formulas, not about
    rounding;
  \<^item> a C \<open>int\<close> is an \<^typ>\<open>int\<close>: the index expressions are assumed to stay inside
    the machine range;
  \<^item> a division is guarded: dividing by zero ends the call with \<open>DivisionByZero\<close>
    (the compiled code, under \<open>cdivision\<close>, goes on with a non-finite value);
  \<^item> the buffers are lists updated by index; the module switches bounds checking off, so
    a store outside a buffer is undefined in the source and ends the call with
    \<open>OutOfBounds\<close> here;
  \<^item> \<open>np.zeros\<close> refuses a negative length (\<open>NegativeDimensions\<close>);
  \<^item> the functions of \<open>bardell.h\<close> and \<open>bardell_functions.h\<close> are not part of the
    module: they are the fields of a parameter \<open>L\<close>;
  \<^item> the result is the value buffer, the two index buffers and the shape, as they are
    passed to \<open>coo_matrix\<close>.
\<close>

subsection \<open>Data\<close>

record Panel =
  a :: real
  b :: real
  m :: int
  n :: int
  u1tx :: real
  u1rx :: real
  u2tx :: real
  u2rx :: real
  v1tx :: real
  v1rx :: real
  v2tx :: real
  v2rx :: real
  w1tx :: real
  w1rx :: real
  w2tx :: real
  w2rx :: real
  u1ty :: real
  u1ry :: real
  u2ty :: real
  u2ry :: real
  v1ty :: real
  v1ry :: real
  v2ty :: real
  v2ry :: real
  w1ty :: real
  w1ry :: real
  w2ty :: real
  w2ry :: real

text \<open>The three external functions, with the argument order of their C declarations.\<close>

record bardell =
  integral_ff :: "int \<Rightarrow> int \<Rightarrow> real \<Rightarrow> real \<Rightarrow> real \<Rightarrow> real \<Rightarrow> real \<Rightarrow> real \<Rightarrow> real \<Rightarrow> real \<Rightarrow> real"
  calc_f :: "int \<Rightarrow> real \<Rightarrow> real \<Rightarrow> real \<Rightarrow> real \<Rightarrow> real \<Rightarrow> real"
  calc_fxi :: "int \<Rightarrow> real \<Rightarrow> real \<Rightarrow> real \<Rightarrow> real \<Rightarrow> real \<Rightarrow> real"

datatype error = DivisionByZero | NegativeDimensions | OutOfBounds

text \<open>The arguments of \<open>coo_matrix((v, (r, c)), shape=(size, size))\<close>.\<close>

record coo_matrix =
  coo_data :: "real list"
  coo_row :: "int list"
  coo_col :: "int list"
  coo_shape :: "int \<times> int"

text \<open>The counter \<open>c\<close> and the three buffers while the loops run.\<close>

record buffers =
  ctr :: int
  rowbuf :: "int list"
  colbuf :: "int list"
  valbuf :: "real list"

subsection \<open>Building blocks\<close>

definition num :: int where
  "num = 3"

definition and_then :: "error + 'x \<Rightarrow> ('x \<Rightarrow> error + 'y) \<Rightarrow> error + 'y" where
  "and_then r f = (case r of Inl e \<Rightarrow> Inl e | Inr x \<Rightarrow> f x)"

definition fdiv :: "real \<Rightarrow> real \<Rightarrow> error + real" where
  "fdiv x y = (if y = 0 then Inl DivisionByZero else Inr (x / y))"

definition np_zeros :: "int \<Rightarrow> error + ('z::zero) list" where
  "np_zeros fdim = (if fdim < 0 then Inl NegativeDimensions else Inr (replicate (nat fdim) 0))"

text \<open>\<open>range(k)\<close> for a C int \<open>k\<close>: empty when \<open>k \<le> 0\<close>.\<close>

definition range_int :: "int \<Rightarrow> int list" where
  "range_int k = map int [0..<nat k]"

text \<open>A \<open>for\<close> loop whose body may fail: the first failure ends the loop.\<close>

fun for_each :: "'x list \<Rightarrow> ('x \<Rightarrow> 's \<Rightarrow> error + 's) \<Rightarrow> 's \<Rightarrow> error + 's" where
  "for_each [] body s = Inr s"
| "for_each (x # xs) body s =
     (case body x s of Inl e \<Rightarrow> Inl e | Inr s' \<Rightarrow> for_each xs body s')"

text \<open>
  One entry: \<open>c += 1; r[c] = ri; c[c] = ci; v[c] += x\<close>.
\<close>

definition store :: "int \<Rightarrow> int \<Rightarrow> real \<Rightarrow> buffers \<Rightarrow> error + buffers" where
  "store ri ci x s =
     (let c = ctr s + 1 in
      if 0 \<le> c \<and> c < int (length (rowbuf s)) \<and> c < int (length (colbuf s))
          \<and> c < int (length (valbuf s))
      then Inr \<lparr>ctr = c,
                rowbuf = (rowbuf s)[nat c := ri],
                colbuf = (colbuf s)[nat c := ci],
                valbuf = (valbuf s)[nat c := valbuf s ! nat c + x]\<rparr>
      else Inl OutOfBounds)"

subsection \<open>fkCBFxcte11\<close>

definition fkCBFxcte11 ::
  "bardell \<Rightarrow> real \<Rightarrow> real \<Rightarrow> Panel \<Rightarrow> real \<Rightarrow> int \<Rightarrow> int \<Rightarrow> int \<Rightarrow> error + coo_matrix" where
  "fkCBFxcte11 L kt kr p1 xcte1 size' row0 col0 =
    (let a1 = a p1; b1 = b p1; m1 = m p1; n1 = n p1;
         u1tx1 = u1tx p1; u1rx1 = u1rx p1; u2tx1 = u2tx p1; u2rx1 = u2rx p1;
         v1tx1 = v1tx p1; v1rx1 = v1rx p1; v2tx1 = v2tx p1; v2rx1 = v2rx p1;
         w1tx1 = w1tx p1; w1rx1 = w1rx p1; w2tx1 = w2tx p1; w2rx1 = w2rx p1;
         u1ty1 = u1ty p1; u1ry1 = u1ry p1; u2ty1 = u2ty p1; u2ry1 = u2ry p1;
         v1ty1 = v1ty p1; v1ry1 = v1ry p1; v2ty1 = v2ty p1; v2ry1 = v2ry p1;
         w1ty1 = w1ty p1; w1ry1 = w1ry p1; w2ty1 = w2ty p1; w2ry1 = w2ry p1
     in
     and_then (fdiv (2 * xcte1) a1) (\<lambda>q.
     let xicte1 = q - 1;
         fdim = 3 * m1 * n1 * m1 * n1
     in
     and_then (np_zeros fdim) (\<lambda>kCBFxcte11r.
     and_then (np_zeros fdim) (\<lambda>kCBFxcte11c.
     and_then (np_zeros fdim) (\<lambda>kCBFxcte11v.
     and_then
       (for_each (range_int n1) (\<lambda>j1.
        for_each (range_int n1) (\<lambda>l1 s.
          let g1Aug1Bu = integral_ff L j1 l1 u1ty1 u1ry1 u2ty1 u2ry1 u1ty1 u1ry1 u2ty1 u2ry1;
              g1Avg1Bv = integral_ff L j1 l1 v1ty1 v1ry1 v2ty1 v2ry1 v1ty1 v1ry1 v2ty1 v2ry1;
              g1Awg1Bw = integral_ff L j1 l1 w1ty1 w1ry1 w2ty1 w2ry1 w1ty1 w1ry1 w2ty1 w2ry1
          in
          for_each (range_int m1) (\<lambda>i1 s.
            let f1Au = calc_f L i1 xicte1 u1tx1 u1rx1 u2tx1 u2rx1;
                f1Av = calc_f L i1 xicte1 v1tx1 v1rx1 v2tx1 v2rx1;
                f1Aw = calc_f L i1 xicte1 w1tx1 w1rx1 w2tx1 w2rx1;
                f1Awxi = calc_fxi L i1 xicte1 w1tx1 w1rx1 w2tx1 w2rx1
            in
            for_each (range_int m1) (\<lambda>k1 s.
              let row = row0 + num * (j1 * m1 + i1);
                  col = col0 + num * (l1 * m1 + k1)
              in
              if row > col then Inr s
              else
                let f1Bu = calc_f L k1 xicte1 u1tx1 u1rx1 u2tx1 u2rx1;
                    f1Bv = calc_f L k1 xicte1 v1tx1 v1rx1 v2tx1 v2rx1;
                    f1Bw = calc_f L k1 xicte1 w1tx1 w1rx1 w2tx1 w2rx1;
                    f1Bwxi = calc_fxi L k1 xicte1 w1tx1 w1rx1 w2tx1 w2rx1
                in
                and_then (store (row + 0) (col + 0) (0.5 * b1 * f1Au * f1Bu * g1Aug1Bu * kt) s) (\<lambda>s.
                and_then (store (row + 1) (col + 1) (0.5 * b1 * f1Av * f1Bv * g1Avg1Bv * kt) s) (\<lambda>s.
                and_then (fdiv (4 * f1Awxi * f1Bwxi * g1Awg1Bw * kr) ((a1 * a1) * kt)) (\<lambda>q.
                store (row + 2) (col + 2) (0.5 * b1 * kt * (f1Aw * f1Bw * g1Awg1Bw + q)) s)))) s) s))
          \<lparr>ctr = - 1, rowbuf = kCBFxcte11r, colbuf = kCBFxcte11c, valbuf = kCBFxcte11v\<rparr>)
       (\<lambda>s. Inr \<lparr>coo_data = valbuf s, coo_row = rowbuf s, coo_col = colbuf s,
                  coo_shape = (size', size')\<rparr>))))))"

subsection \<open>fkCBFxycte12\<close>

definition fkCBFxycte12 ::
  "bardell \<Rightarrow> real \<Rightarrow> real \<Rightarrow> Panel \<Rightarrow> Panel \<Rightarrow> real \<Rightarrow> real \<Rightarrow> int \<Rightarrow> int \<Rightarrow> int
     \<Rightarrow> error + coo_matrix" where
  "fkCBFxycte12 L kt kr p1 p2 xcte1 ycte2 size' row0 col0 =
    (let a1 = a p1; a2 = a p2; b1 = b p1; b2 = b p2;
         m1 = m p1; n1 = n p1; m2 = m p2; n2 = n p2;
         u1tx1 = u1tx p1; u1rx1 = u1rx p1; u2tx1 = u2tx p1; u2rx1 = u2rx p1;
         v1tx1 = v1tx p1; v1rx1 = v1rx p1; v2tx1 = v2tx p1; v2rx1 = v2rx p1;
         w1tx1 = w1tx p1; w1rx1 = w1rx p1; w2tx1 = w2tx p1; w2rx1 = w2rx p1;
         u1ty1 = u1ty p1; u1ry1 = u1ry p1; u2ty1 = u2ty p1; u2ry1 = u2ry p1;
         v1ty1 = v1ty p1; v1ry1 = v1ry p1; v2ty1 = v2ty p1; v2ry1 = v2ry p1;
         w1ty1 = w1ty p1; w1ry1 = w1ry p1; w2ty1 = w2ty p1; w2ry1 = w2ry p1;
         u1tx2 = u1tx p2; u1rx2 = u1rx p2; u2tx2 = u2tx p2; u2rx2 = u2rx p2;
         v1tx2 = v1tx p2; v1rx2 = v1rx p2; v2tx2 = v2tx p2; v2rx2 = v2rx p2;
         w1tx2 = w1tx p2; w1rx2 = w1rx p2; w2tx2 = w2tx p2; w2rx2 = w2rx p2;
         u1ty2 = u1ty p2; u1ry2 = u1ry p2; u2ty2 = u2ty p2; u2ry2 = u2ry p2;
         v1ty2 = v1ty p2; v1ry2 = v1ry p2; v2ty2 = v2ty p2; v2ry2 = v2ry p2;
         w1ty2 = w1ty p2; w1ry2 = w1ry p2; w2ty2 = w2ty p2; w2ry2 = w2ry p2
     in
     and_then (fdiv (2 * xcte1) a1) (\<lambda>q1.
     and_then (fdiv (2 * ycte2) b2) (\<lambda>q2.
     let xicte1 = q1 - 1;
         etacte2 = q2 - 1;
         fdim = 4 * m1 * n1 * m2 * n2
     in
     and_then (np_zeros fdim) (\<lambda>kCBFxycte12r.
     and_then (np_zeros fdim) (\<lambda>kCBFxycte12c.
     and_then (np_zeros fdim) (\<lambda>kCBFxycte12v.
     and_then
       (for_each (range_int n1) (\<lambda>j1.
        for_each (range_int m2) (\<lambda>k2 s.
          let g1Auf2Bw = integral_ff L j1 k2 u1ty1 u1ry1 u2ty1 u2ry1 w1tx2 w1rx2 w2tx2 w2rx2;
              g1Avf2Bu = integral_ff L j1 k2 v1ty1 v1ry1 v2ty1 v2ry1 u1tx2 u1rx2 u2tx2 u2rx2;
              g1Awf2Bv = integral_ff L j1 k2 w1ty1 w1ry1 w2ty1 w2ry1 v1tx2 v1rx2 v2tx2 v2rx2;
              g1Awf2Bw = integral_ff L j1 k2 w1ty1 w1ry1 w2ty1 w2ry1 w1tx2 w1rx2 w2tx2 w2rx2
          in
          for_each (range_int m1) (\<lambda>i1 s.
            let f1Au = calc_f L i1 xicte1 u1tx1 u1rx1 u2tx1 u2rx1;
                f1Av = calc_f L i1 xicte1 v1tx1 v1rx1 v2tx1 v2rx1;
                f1Aw = calc_f L i1 xicte1 w1tx1 w1rx1 w2tx1 w2rx1;
                f1Awxi = calc_fxi L i1 xicte1 w1tx1 w1rx1 w2tx1 w2rx1
            in
            for_each (range_int n2) (\<lambda>l2 s.
              let row = row0 + num * (j1 * m1 + i1);
                  col = col0 + num * (l2 * m2 + k2);
                  g2Bu = calc_f L l2 etacte2 u1ty2 u1ry2 u2ty2 u2ry2;
                  g2Bv = calc_f L l2 etacte2 v1ty2 v1ry2 v2ty2 v2ry2;
                  g2Bw = calc_f L l2 etacte2 w1ty2 w1ry2 w2ty2 w2ry2;
                  g2Bwxi = calc_fxi L l2 etacte2 w1ty2 w1ry2 w2ty2 w2ry2
              in
              and_then (store (row + 0) (col + 0) (- 0.25 * b1 * a2 * g1Auf2Bw * f1Au * g2Bw * kt) s) (\<lambda>s.
              and_then (store (row + 1) (col + 2) (- 0.25 * b1 * a2 * g1Avf2Bu * f1Av * g2Bu * kt) s) (\<lambda>s.
              and_then (store (row + 2) (col + 1) (0.25 * b1 * a2 * g1Awf2Bv * f1Aw * g2Bv * kt) s) (\<lambda>s.
              and_then (fdiv (- 1 * b1 * a2 * g1Awf2Bw * f1Awxi * g2Bwxi * kr) (a1 * b2)) (\<lambda>q.
              store (row + 2) (col + 2) q s))))) s) s))
          \<lparr>ctr = - 1, rowbuf = kCBFxycte12r, colbuf = kCBFxycte12c, valbuf = kCBFxycte12v\<rparr>)
       (\<lambda>s. Inr \<lparr>coo_data = valbuf s, coo_row = rowbuf s, coo_col = colbuf s,
                  coo_shape = (size', size')\<rparr>)))))))"

subsection \<open>fkCBFycte22\<close>

text \<open>The argument \<open>p1\<close> is part of the signature; the body reads \<open>p2\<close> only.\<close>

definition fkCBFycte22 ::
  "bardell \<Rightarrow> real \<Rightarrow> real \<Rightarrow> Panel \<Rightarrow> Panel \<Rightarrow> real \<Rightarrow> int \<Rightarrow> int \<Rightarrow> int \<Rightarrow> error + coo_matrix" where
  "fkCBFycte22 L kt kr p1 p2 ycte2 size' row0 col0 =
    (let a2 = a p2; b2 = b p2; m2 = m p2; n2 = n p2;
         u1tx2 = u1tx p2; u1rx2 = u1rx p2; u2tx2 = u2tx p2; u2rx2 = u2rx p2;
         v1tx2 = v1tx p2; v1rx2 = v1rx p2; v2tx2 = v2tx p2; v2rx2 = v2rx p2;
         w1tx2 = w1tx p2; w1rx2 = w1rx p2; w2tx2 = w2tx p2; w2rx2 = w2rx p2;
         u1ty2 = u1ty p2; u1ry2 = u1ry p2; u2ty2 = u2ty p2; u2ry2 = u2ry p2;
         v1ty2 = v1ty p2; v1ry2 = v1ry p2; v2ty2 = v2ty p2; v2ry2 = v2ry p2;
         w1ty2 = w1ty p2; w1ry2 = w1ry p2; w2ty2 = w2ty p2; w2ry2 = w2ry p2
     in
     and_then (fdiv (2 * ycte2) b2) (\<lambda>q.
     let etacte2 = q - 1;
         fdim = 3 * m2 * n2 * m2 * n2
     in
     and_then (np_zeros fdim) (\<lambda>kCBFycte22r.
     and_then (np_zeros fdim) (\<lambda>kCBFycte22c.
     and_then (np_zeros fdim) (\<lambda>kCBFycte22v.
     and_then
       (for_each (range_int m2) (\<lambda>i2.
        for_each (range_int m2) (\<lambda>k2 s.
          let f2Auf2Bu = integral_ff L i2 k2 u1tx2 u1rx2 u2tx2 u2rx2 u1tx2 u1rx2 u2tx2 u2rx2;
              f2Avf2Bv = integral_ff L i2 k2 v1tx2 v1rx2 v2tx2 v2rx2 v1tx2 v1rx2 v2tx2 v2rx2;
              f2Awf2Bw = integral_ff L i2 k2 w1tx2 w1rx2 w2tx2 w2rx2 w1tx2 w1rx2 w2tx2 w2rx2
          in
          for_each (range_int n2) (\<lambda>j2 s.
            let g2Au = calc_f L j2 etacte2 u1ty2 u1ry2 u2ty2 u2ry2;
                g2Av = calc_f L j2 etacte2 v1ty2 v1ry2 v2ty2 v2ry2;
                g2Aw = calc_f L j2 etacte2 w1ty2 w1ry2 w2ty2 w2ry2;
                g2Awxi = calc_fxi L j2 etacte2 w1ty2 w1ry2 w2ty2 w2ry2
            in
            for_each (range_int n2) (\<lambda>l2 s.
              let row = row0 + num * (j2 * m2 + i2);
                  col = col0 + num * (l2 * m2 + k2)
              in
              if row > col then Inr s
              else
                let g2Bu = calc_f L l2 etacte2 u1ty2 u1ry2 u2ty2 u2ry2;
                    g2Bv = calc_f L l2 etacte2 v1ty2 v1ry2 v2ty2 v2ry2;
                    g2Bw = calc_f L l2 etacte2 w1ty2 w1ry2 w2ty2 w2ry2;
                    g2Bwxi = calc_fxi L l2 etacte2 w1ty2 w1ry2 w2ty2 w2ry2
                in
                and_then (store (row + 0) (col + 0) (0.5 * a2 * f2Auf2Bu * g2Au * g2Bu * kt) s) (\<lambda>s.
                and_then (store (row + 1) (col + 1) (0.5 * a2 * f2Avf2Bv * g2Av * g2Bv * kt) s) (\<lambda>s.
                and_then (fdiv (4 * f2Awf2Bw * g2Awxi * g2Bwxi * kr) ((b2 * b2) * kt)) (\<lambda>q.
                store (row + 2) (col + 2) (0.5 * a2 * kt * (f2Awf2Bw * g2Aw * g2Bw + q)) s)))) s) s))
          \<lparr>ctr = - 1, rowbuf = kCBFycte22r, colbuf = kCBFycte22c, valbuf = kCBFycte22v\<rparr>)
       (\<lambda>s. Inr \<lparr>coo_data = valbuf s, coo_row = rowbuf s, coo_col = colbuf s,
                  coo_shape = (size', size')\<rparr>))))))"

section \<open>Derived views\<close>

text \<open>
  Nothing below is called by the three procedures. The definitions name what the loops
  compute, so that the theorems can speak about it: the values of the formulas, the list
  of index combinations that pass the symmetry test (in the order of the loops), and the
  entries written for them.
\<close>

subsection \<open>Buffers\<close>

text \<open>Writing a list of entries, one \<open>store\<close> after the other.\<close>

definition write_all :: "(int \<times> int \<times> real) list \<Rightarrow> buffers \<Rightarrow> error + buffers" where
  "write_all es s = for_each es (\<lambda>e. store (fst e) (fst (snd e)) (snd (snd e))) s"

text \<open>The buffers after \<open>np.zeros\<close>, and after the entries \<open>es\<close> have been written.\<close>

definition fresh :: "nat \<Rightarrow> buffers" where
  "fresh N = \<lparr>ctr = - 1, rowbuf = replicate N 0, colbuf = replicate N 0, valbuf = replicate N 0\<rparr>"

definition filled :: "nat \<Rightarrow> (int \<times> int \<times> real) list \<Rightarrow> buffers" where
  "filled N es = \<lparr>ctr = int (length es) - 1,
     rowbuf = map fst es @ replicate (N - length es) 0,
     colbuf = map (fst \<circ> snd) es @ replicate (N - length es) 0,
     valbuf = map (snd \<circ> snd) es @ replicate (N - length es) 0\<rparr>"

text \<open>The returned matrix when the entries \<open>es\<close> were written into \<open>N\<close> slots.\<close>

definition padded :: "nat \<Rightarrow> int \<Rightarrow> (int \<times> int \<times> real) list \<Rightarrow> coo_matrix" where
  "padded N size' es =
     \<lparr>coo_data = map (snd \<circ> snd) es @ replicate (N - length es) 0,
      coo_row = map fst es @ replicate (N - length es) 0,
      coo_col = map (fst \<circ> snd) es @ replicate (N - length es) 0,
      coo_shape = (size', size')\<rparr>"

definition coo_triples :: "coo_matrix \<Rightarrow> (int \<times> int \<times> real) list" where
  "coo_triples M = zip (coo_row M) (zip (coo_col M) (coo_data M))"

subsection \<open>fkCBFxcte11: formulas, combinations, entries\<close>

text \<open>
  The three values of lines 130, 134 and 138, with the plain division of the reals, as
  functions of the normalised coordinate and of the four loop indices.
\<close>

definition xcte11_u :: "bardell \<Rightarrow> real \<Rightarrow> Panel \<Rightarrow> real \<Rightarrow> int \<Rightarrow> int \<Rightarrow> int \<Rightarrow> int \<Rightarrow> real" where
  "xcte11_u L kt p1 xicte1 j1 l1 i1 k1 =
     0.5 * b p1 * calc_f L i1 xicte1 (u1tx p1) (u1rx p1) (u2tx p1) (u2rx p1)
       * calc_f L k1 xicte1 (u1tx p1) (u1rx p1) (u2tx p1) (u2rx p1)
       * integral_ff L j1 l1 (u1ty p1) (u1ry p1) (u2ty p1) (u2ry p1)
           (u1ty p1) (u1ry p1) (u2ty p1) (u2ry p1)
       * kt"

definition xcte11_v :: "bardell \<Rightarrow> real \<Rightarrow> Panel \<Rightarrow> real \<Rightarrow> int \<Rightarrow> int \<Rightarrow> int \<Rightarrow> int \<Rightarrow> real" where
  "xcte11_v L kt p1 xicte1 j1 l1 i1 k1 =
     0.5 * b p1 * calc_f L i1 xicte1 (v1tx p1) (v1rx p1) (v2tx p1) (v2rx p1)
       * calc_f L k1 xicte1 (v1tx p1) (v1rx p1) (v2tx p1) (v2rx p1)
       * integral_ff L j1 l1 (v1ty p1) (v1ry p1) (v2ty p1) (v2ry p1)
           (v1ty p1) (v1ry p1) (v2ty p1) (v2ry p1)
       * kt"

definition xcte11_w :: "bardell \<Rightarrow> real \<Rightarrow> real \<Rightarrow> Panel \<Rightarrow> real \<Rightarrow> int \<Rightarrow> int \<Rightarrow> int \<Rightarrow> int \<Rightarrow> real" where
  "xcte11_w L kt kr p1 xicte1 j1 l1 i1 k1 =
     0.5 * b p1 * kt *
       (calc_f L i1 xicte1 (w1tx p1) (w1rx p1) (w2tx p1) (w2rx p1)
          * calc_f L k1 xicte1 (w1tx p1) (w1rx p1) (w2tx p1) (w2rx p1)
          * integral_ff L j1 l1 (w1ty p1) (w1ry p1) (w2ty p1) (w2ry p1)
              (w1ty p1) (w1ry p1) (w2ty p1) (w2ry p1)
        + 4 * calc_fxi L i1 xicte1 (w1tx p1) (w1rx p1) (w2tx p1) (w2rx p1)
            * calc_fxi L k1 xicte1 (w1tx p1) (w1rx p1) (w2tx p1) (w2rx p1)
            * integral_ff L j1 l1 (w1ty p1) (w1ry p1) (w2ty p1) (w2ry p1)
                (w1ty p1) (w1ry p1) (w2ty p1) (w2ry p1)
            * kr / ((a p1 * a p1) * kt))"

definition xcte11_triples ::
  "bardell \<Rightarrow> real \<Rightarrow> real \<Rightarrow> Panel \<Rightarrow> real \<Rightarrow> int \<Rightarrow> int \<Rightarrow> int \<Rightarrow> int \<Rightarrow> int \<Rightarrow> int
     \<Rightarrow> (int \<times> int \<times> real) list" where
  "xcte11_triples L kt kr p1 xcte1 row0 col0 j1 l1 i1 k1 =
     (let xicte1 = 2 * xcte1 / a p1 - 1;
          row = row0 + num * (j1 * m p1 + i1);
          col = col0 + num * (l1 * m p1 + k1)
      in [(row + 0, col + 0, xcte11_u L kt p1 xicte1 j1 l1 i1 k1),
          (row + 1, col + 1, xcte11_v L kt p1 xicte1 j1 l1 i1 k1),
          (row + 2, col + 2, xcte11_w L kt kr p1 xicte1 j1 l1 i1 k1)])"

text \<open>The combinations that are not skipped, in the order of the loops.\<close>

definition xcte11_combos :: "Panel \<Rightarrow> int \<Rightarrow> int \<Rightarrow> (int \<times> int \<times> int \<times> int) list" where
  "xcte11_combos p1 row0 col0 =
     [(j1, l1, i1, k1).
        j1 \<leftarrow> range_int (n p1), l1 \<leftarrow> range_int (n p1),
        i1 \<leftarrow> range_int (m p1), k1 \<leftarrow> range_int (m p1),
        row0 + num * (j1 * m p1 + i1) \<le> col0 + num * (l1 * m p1 + k1)]"

definition xcte11_entries ::
  "bardell \<Rightarrow> real \<Rightarrow> real \<Rightarrow> Panel \<Rightarrow> real \<Rightarrow> int \<Rightarrow> int \<Rightarrow> (int \<times> int \<times> real) list" where
  "xcte11_entries L kt kr p1 xcte1 row0 col0 =
     concat (map (\<lambda>(j1, l1, i1, k1). xcte11_triples L kt kr p1 xcte1 row0 col0 j1 l1 i1 k1)
       (xcte11_combos p1 row0 col0))"

subsection \<open>fkCBFycte22: formulas, combinations, entries\<close>

definition ycte22_u :: "bardell \<Rightarrow> real \<Rightarrow> Panel \<Rightarrow> real \<Rightarrow> int \<Rightarrow> int \<Rightarrow> int \<Rightarrow> int \<Rightarrow> real" where
  "ycte22_u L kt p2 etacte2 i2 k2 j2 l2 =
     0.5 * a p2
       * integral_ff L i2 k2 (u1tx p2) (u1rx p2) (u2tx p2) (u2rx p2)
           (u1tx p2) (u1rx p2) (u2tx p2) (u2rx p2)
       * calc_f L j2 etacte2 (u1ty p2) (u1ry p2) (u2ty p2) (u2ry p2)
       * calc_f L l2 etacte2 (u1ty p2) (u1ry p2) (u2ty p2) (u2ry p2)
       * kt"

definition ycte22_v :: "bardell \<Rightarrow> real \<Rightarrow> Panel \<Rightarrow> real \<Rightarrow> int \<Rightarrow> int \<Rightarrow> int \<Rightarrow> int \<Rightarrow> real" where
  "ycte22_v L kt p2 etacte2 i2 k2 j2 l2 =
     0.5 * a p2
       * integral_ff L i2 k2 (v1tx p2) (v1rx p2) (v2tx p2) (v2rx p2)
           (v1tx p2) (v1rx p2) (v2tx p2) (v2rx p2)
       * calc_f L j2 etacte2 (v1ty p2) (v1ry p2) (v2ty p2) (v2ry p2)
       * calc_f L l2 etacte2 (v1ty p2) (v1ry p2) (v2ty p2) (v2ry p2)
       * kt"

definition ycte22_w :: "bardell \<Rightarrow> real \<Rightarrow> real \<Rightarrow> Panel \<Rightarrow> real \<Rightarrow> int \<Rightarrow> int \<Rightarrow> int \<Rightarrow> int \<Rightarrow> real" where
  "ycte22_w L kt kr p2 etacte2 i2 k2 j2 l2 =
     0.5 * a p2 * kt *
       (integral_ff L i2 k2 (w1tx p2) (w1rx p2) (w2tx p2) (w2rx p2)
            (w1tx p2) (w1rx p2) (w2tx p2) (w2rx p2)
          * calc_f L j2 etacte2 (w1ty p2) (w1ry p2) (w2ty p2) (w2ry p2)
          * calc_f L l2 etacte2 (w1ty p2) (w1ry p2) (w2ty p2) (w2ry p2)
        + 4 * integral_ff L i2 k2 (w1tx p2) (w1rx p2) (w2tx p2) (w2rx p2)
                (w1tx p2) (w1rx p2) (w2tx p2) (w2rx p2)
            * calc_fxi L j2 etacte2 (w1ty p2) (w1ry p2) (w2ty p2) (w2ry p2)
            * calc_fxi L l2 etacte2 (w1ty p2) (w1ry p2) (w2ty p2) (w2ry p2)
            * kr / ((b p2 * b p2) * kt))"

definition ycte22_triples ::
  "bardell \<Rightarrow> real \<Rightarrow> real \<Rightarrow> Panel \<Rightarrow> real \<Rightarrow> int \<Rightarrow> int \<Rightarrow> int \<Rightarrow> int \<Rightarrow> int \<Rightarrow> int
     \<Rightarrow> (int \<times> int \<times> real) list" where
  "ycte22_triples L kt kr p2 ycte2 row0 col0 i2 k2 j2 l2 =
     (let etacte2 = 2 * ycte2 / b p2 - 1;
          row = row0 + num * (j2 * m p2 + i2);
          col = col0 + num * (l2 * m p2 + k2)
      in [(row + 0, col + 0, ycte22_u L kt p2 etacte2 i2 k2 j2 l2),
          (row + 1, col + 1, ycte22_v L kt p2 etacte2 i2 k2 j2 l2),
          (row + 2, col + 2, ycte22_w L kt kr p2 etacte2 i2 k2 j2 l2)])"

definition ycte22_combos :: "Panel \<Rightarrow> int \<Rightarrow> int \<Rightarrow> (int \<times> int \<times> int \<times> int) list" where
  "ycte22_combos p2 row0 col0 =
     [(i2, k2, j2, l2).
        i2 \<leftarrow> range_int (m p2), k2 \<leftarrow> range_int (m p2),
        j2 \<leftarrow> range_int (n p2), l2 \<leftarrow> range_int (n p2),
        row0 + num * (j2 * m p2 + i2) \<le> col0 + num * (l2 * m p2 + k2)]"

definition ycte22_entries ::
  "bardell \<Rightarrow> real \<Rightarrow> real \<Rightarrow> Panel \<Rightarrow> real \<Rightarrow> int \<Rightarrow> int \<Rightarrow> (int \<times> int \<times> real) list" where
  "ycte22_entries L kt kr p2 ycte2 row0 col0 =
     concat (map (\<lambda>(i2, k2, j2, l2). ycte22_triples L kt kr p2 ycte2 row0 col0 i2 k2 j2 l2)
       (ycte22_combos p2 row0 col0))"

subsection \<open>fkCBFxycte12: formulas, combinations, entries\<close>

definition xycte12_uw ::
  "bardell \<Rightarrow> real \<Rightarrow> Panel \<Rightarrow> Panel \<Rightarrow> real \<Rightarrow> real \<Rightarrow> int \<Rightarrow> int \<Rightarrow> int \<Rightarrow> int \<Rightarrow> real" where
  "xycte12_uw L kt p1 p2 xicte1 etacte2 j1 k2 i1 l2 =
     - 0.25 * b p1 * a p2
       * integral_ff L j1 k2 (u1ty p1) (u1ry p1) (u2ty p1) (u2ry p1)
           (w1tx p2) (w1rx p2) (w2tx p2) (w2rx p2)
       * calc_f L i1 xicte1 (u1tx p1) (u1rx p1) (u2tx p1) (u2rx p1)
       * calc_f L l2 etacte2 (w1ty p2) (w1ry p2) (w2ty p2) (w2ry p2)
       * kt"

definition xycte12_vu ::
  "bardell \<Rightarrow> real \<Rightarrow> Panel \<Rightarrow> Panel \<Rightarrow> real \<Rightarrow> real \<Rightarrow> int \<Rightarrow> int \<Rightarrow> int \<Rightarrow> int \<Rightarrow> real" where
  "xycte12_vu L kt p1 p2 xicte1 etacte2 j1 k2 i1 l2 =
     - 0.25 * b p1 * a p2
       * integral_ff L j1 k2 (v1ty p1) (v1ry p1) (v2ty p1) (v2ry p1)
           (u1tx p2) (u1rx p2) (u2tx p2) (u2rx p2)
       * calc_f L i1 xicte1 (v1tx p1) (v1rx p1) (v2tx p1) (v2rx p1)
       * calc_f L l2 etacte2 (u1ty p2) (u1ry p2) (u2ty p2) (u2ry p2)
       * kt"

definition xycte12_wv ::
  "bardell \<Rightarrow> real \<Rightarrow> Panel \<Rightarrow> Panel \<Rightarrow> real \<Rightarrow> real \<Rightarrow> int \<Rightarrow> int \<Rightarrow> int \<Rightarrow> int \<Rightarrow> real" where
  "xycte12_wv L kt p1 p2 xicte1 etacte2 j1 k2 i1 l2 =
     0.25 * b p1 * a p2
       * integral_ff L j1 k2 (w1ty p1) (w1ry p1) (w2ty p1) (w2ry p1)
           (v1tx p2) (v1rx p2) (v2tx p2) (v2rx p2)
       * calc_f L i1 xicte1 (w1tx p1) (w1rx p1) (w2tx p1) (w2rx p1)
       * calc_f L l2 etacte2 (v1ty p2) (v1ry p2) (v2ty p2) (v2ry p2)
       * kt"

definition xycte12_ww ::
  "bardell \<Rightarrow> real \<Rightarrow> Panel \<Rightarrow> Panel \<Rightarrow> real \<Rightarrow> real \<Rightarrow> int \<Rightarrow> int \<Rightarrow> int \<Rightarrow> int \<Rightarrow> real" where
  "xycte12_ww L kr p1 p2 xicte1 etacte2 j1 k2 i1 l2 =
     - 1 * b p1 * a p2
       * integral_ff L j1 k2 (w1ty p1) (w1ry p1) (w2ty p1) (w2ry p1)
           (w1tx p2) (w1rx p2) (w2tx p2) (w2rx p2)
       * calc_fxi L i1 xicte1 (w1tx p1) (w1rx p1) (w2tx p1) (w2rx p1)
       * calc_fxi L l2 etacte2 (w1ty p2) (w1ry p2) (w2ty p2) (w2ry p2)
       * kr / (a p1 * b p2)"

definition xycte12_quads ::
  "bardell \<Rightarrow> real \<Rightarrow> real \<Rightarrow> Panel \<Rightarrow> Panel \<Rightarrow> real \<Rightarrow> real \<Rightarrow> int \<Rightarrow> int
     \<Rightarrow> int \<Rightarrow> int \<Rightarrow> int \<Rightarrow> int \<Rightarrow> (int \<times> int \<times> real) list" where
  "xycte12_quads L kt kr p1 p2 xcte1 ycte2 row0 col0 j1 k2 i1 l2 =
     (let xicte1 = 2 * xcte1 / a p1 - 1;
          etacte2 = 2 * ycte2 / b p2 - 1;
          row = row0 + num * (j1 * m p1 + i1);
          col = col0 + num * (l2 * m p2 + k2)
      in [(row + 0, col + 0, xycte12_uw L kt p1 p2 xicte1 etacte2 j1 k2 i1 l2),
          (row + 1, col + 2, xycte12_vu L kt p1 p2 xicte1 etacte2 j1 k2 i1 l2),
          (row + 2, col + 1, xycte12_wv L kt p1 p2 xicte1 etacte2 j1 k2 i1 l2),
          (row + 2, col + 2, xycte12_ww L kr p1 p2 xicte1 etacte2 j1 k2 i1 l2)])"

definition xycte12_combos :: "Panel \<Rightarrow> Panel \<Rightarrow> (int \<times> int \<times> int \<times> int) list" where
  "xycte12_combos p1 p2 =
     [(j1, k2, i1, l2).
        j1 \<leftarrow> range_int (n p1), k2 \<leftarrow> range_int (m p2),
        i1 \<leftarrow> range_int (m p1), l2 \<leftarrow> range_int (n p2)]"

definition xycte12_entries ::
  "bardell \<Rightarrow> real \<Rightarrow> real \<Rightarrow> Panel \<Rightarrow> Panel \<Rightarrow> real \<Rightarrow> real \<Rightarrow> int \<Rightarrow> int
     \<Rightarrow> (int \<times> int \<times> real) list" where
  "xycte12_entries L kt kr p1 p2 xcte1 ycte2 row0 col0 =
     concat (map (\<lambda>(j1, k2, i1, l2).
         xycte12_quads L kt kr p1 p2 xcte1 ycte2 row0 col0 j1 k2 i1 l2)
       (xycte12_combos p1 p2))"

subsection \<open>The dual of fkCBFxcte11\<close>



subsection \<open>Concrete inputs\<close>

text \<open>
  Two instances of the external library, for evaluating the procedures: one whose
  functions are constantly 1, and one that returns the boundary coefficients it is
  given, so that a value shows which fields it was computed from.
\<close>

definition const_lib :: bardell where
  "const_lib =
     \<lparr>integral_ff = (\<lambda>i j x1t x1r x2t x2r y1t y1r y2t y2r. 1),
      calc_f = (\<lambda>i xi xi1t xi1r xi2t xi2r. 1),
      calc_fxi = (\<lambda>i xi xi1t xi1r xi2t xi2r. 1)\<rparr>"

definition coeff_lib :: bardell where
  "coeff_lib =
     \<lparr>integral_ff = (\<lambda>i j x1t x1r x2t x2r y1t y1r y2t y2r. x1t * y1t),
      calc_f = (\<lambda>i xi xi1t xi1r xi2t xi2r. xi1t),
      calc_fxi = (\<lambda>i xi xi1t xi1r xi2t xi2r. xi1r)\<rparr>"

text \<open>A unit square panel with \<open>mm\<close> by \<open>nn\<close> terms and free edges.\<close>

definition plain_panel :: "int \<Rightarrow> int \<Rightarrow> Panel" where
  "plain_panel mm nn =
     \<lparr>a = 1, b = 1, m = mm, n = nn,
      u1tx = 0, u1rx = 0, u2tx = 0, u2rx = 0,
      v1tx = 0, v1rx = 0, v2tx = 0, v2rx = 0,
      w1tx = 0, w1rx = 0, w2tx = 0, w2rx = 0,
      u1ty = 0, u1ry = 0, u2ty = 0, u2ry = 0,
      v1ty = 0, v1ry = 0, v2ty = 0, v2ry = 0,
      w1ty = 0, w1ry = 0, w2ty = 0, w2ry = 0\<rparr>"

text \<open>
  A unit square panel with one term per direction whose boundary coefficients carry a
  tag per field: \<open>tu\<close> for u, \<open>tv\<close> for v, \<open>tw\<close> for w.
\<close>

definition tagged_panel :: "real \<Rightarrow> real \<Rightarrow> real \<Rightarrow> Panel" where
  "tagged_panel tu tv tw =
     \<lparr>a = 1, b = 1, m = 1, n = 1,
      u1tx = tu, u1rx = tu, u2tx = tu, u2rx = tu,
      v1tx = tv, v1rx = tv, v2tx = tv, v2rx = tv,
      w1tx = tw, w1rx = tw, w2tx = tw, w2rx = tw,
      u1ty = tu, u1ry = tu, u2ty = tu, u2ry = tu,
      v1ty = tv, v1ry = tv, v2ty = tv, v2ry = tv,
      w1ty = tw, w1ry = tw, w2ty = tw, w2ry = tw\<rparr>"

text \<open>The results of three calls, used as examples below.\<close>

definition result11 :: coo_matrix where
  "result11 =
     \<lparr>coo_data = [1 / 2, 1 / 2, 5 / 2, 1 / 2, 1 / 2, 5 / 2, 1 / 2, 1 / 2, 5 / 2, 0, 0, 0],
      coo_row = [3, 4, 5, 3, 4, 5, 6, 7, 8, 0, 0, 0],
      coo_col = [3, 4, 5, 6, 7, 8, 6, 7, 8, 0, 0, 0],
      coo_shape = (9, 9)\<rparr>"

definition result22 :: coo_matrix where
  "result22 =
     \<lparr>coo_data = [1 / 2, 1 / 2, 5 / 2, 1 / 2, 1 / 2, 5 / 2, 1 / 2, 1 / 2, 5 / 2, 0, 0, 0],
      coo_row = [3, 4, 5, 3, 4, 5, 6, 7, 8, 0, 0, 0],
      coo_col = [3, 4, 5, 6, 7, 8, 6, 7, 8, 0, 0, 0],
      coo_shape = (9, 9)\<rparr>"

definition result12 :: coo_matrix where
  "result12 =
     \<lparr>coo_data = [- (1 / 4), - (1 / 4), 1 / 4, - 1],
      coo_row = [0, 1, 2, 2],
      coo_col = [3, 5, 4, 5],
      coo_shape = (6, 6)\<rparr>"


definition result12_tagged :: coo_matrix where
  "result12_tagged =
     \<lparr>coo_data = [- 169, - (441 / 4), 3025 / 4, - 4225],
      coo_row = [0, 1, 2, 2],
      coo_col = [3, 5, 4, 5],
      coo_shape = (6, 6)\<rparr>"

section \<open>The loops compute the entries\<close>

lemma and_then_Inr [simp]: "and_then (Inr x) f = f x"
  by (simp add: and_then_def)

lemma and_then_Inl [simp]: "and_then (Inl e) f = Inl e"
  by (simp add: and_then_def)

lemma write_all_Nil [simp]: "write_all [] s = Inr s"
  by (simp add: write_all_def)

lemma write_all_Cons:
  "write_all (e # es) s = and_then (store (fst e) (fst (snd e)) (snd (snd e)) s) (write_all es)"
  by (simp add: write_all_def and_then_def split: sum.splits)

lemma for_each_append:
  "for_each (xs @ ys) body s = and_then (for_each xs body s) (for_each ys body)"
  by (induction xs arbitrary: s) (auto split: sum.splits)

lemma write_all_append:
  "write_all (xs @ ys) s = and_then (write_all xs s) (write_all ys)"
  unfolding write_all_def by (rule for_each_append)

lemma for_each_writes:
  assumes "\<And>x t. x \<in> set xs \<Longrightarrow> body x t = write_all (f x) t"
  shows "for_each xs body s = write_all (concat (map f xs)) s"
  using assms
proof (induction xs arbitrary: s)
  case Nil
  then show ?case by simp
next
  case (Cons x xs)
  then show ?case
    by (simp add: write_all_append and_then_def split: sum.splits)
qed

lemma store_filled:
  "store ri ci x (filled N es) =
     (if length es < N then Inr (filled N (es @ [(ri, ci, x)])) else Inl OutOfBounds)"
proof (cases "length es < N")
  case True
  then obtain d where d: "N - length es = Suc d"
    by (cases "N - length es") auto
  with True show ?thesis
    by (simp add: store_def filled_def Let_def nth_append list_update_append Suc_diff_Suc)
next
  case False
  then show ?thesis
    by (simp add: store_def filled_def Let_def)
qed

lemma write_all_filled:
  "length pre \<le> N \<Longrightarrow> write_all es (filled N pre) =
     (if length pre + length es \<le> N then Inr (filled N (pre @ es)) else Inl OutOfBounds)"
proof (induction es arbitrary: pre)
  case Nil
  then show ?case by simp
next
  case (Cons e es)
  show ?case
  proof (cases "length pre < N")
    case True
    then show ?thesis
      using Cons.IH [of "pre @ [(fst e, fst (snd e), snd (snd e))]"]
      by (simp add: write_all_Cons store_filled)
  next
    case False
    then show ?thesis
      by (simp add: write_all_Cons store_filled)
  qed
qed

lemma fresh_filled: "fresh N = filled N []"
  by (simp add: fresh_def filled_def)

lemma write_all_fresh:
  "write_all es (fresh N) = (if length es \<le> N then Inr (filled N es) else Inl OutOfBounds)"
  by (simp add: fresh_filled write_all_filled)

lemma for_each_write_all:
  "for_each xs (\<lambda>x. write_all (f x)) = write_all (concat (map f xs))"
  by (rule ext, rule for_each_writes) simp

lemma store_write_all: "store ri ci x s = write_all [(ri, ci, x)] s"
  by (simp add: write_all_Cons and_then_def split: sum.splits)

lemma and_then_write_all:
  "and_then (write_all xs s) (write_all ys) = write_all (xs @ ys) s"
  by (simp add: write_all_append)

lemma if_write_all:
  "(if c then Inr s else write_all es s) = write_all (if c then [] else es) s"
  by simp

lemma fdiv_nz: "y \<noteq> 0 \<Longrightarrow> fdiv x y = Inr (x / y)"
  by (simp add: fdiv_def)

lemma np_zeros_nonneg: "0 \<le> d \<Longrightarrow> np_zeros d = Inr (replicate (nat d) 0)"
  by (simp add: np_zeros_def)

lemma concat_map_concat_map:
  "concat (map f (concat (map g xs))) = concat (map (\<lambda>x. concat (map f (g x))) xs)"
  by (induction xs) simp_all

lemma concat_map_if:
  "concat (map f (if c then [x] else [])) = (if c then f x else [])"
  by simp

lemma nest4_combos:
  "concat (map (\<lambda>(j, l, i, k). T j l i k)
      [(j, l, i, k). j \<leftarrow> js, l \<leftarrow> ls, i \<leftarrow> iz, k \<leftarrow> ks, P j l i k]) =
   concat (map (\<lambda>j. concat (map (\<lambda>l. concat (map (\<lambda>i. concat (map (\<lambda>k.
      if P j l i k then T j l i k else []) ks)) iz)) ls)) js)"
  by (simp only: concat_map_concat_map concat_map_if prod.case)

lemma for_each_skip_fail:
  assumes "\<And>x. x \<in> set xs \<Longrightarrow> body x s = (if sk x then Inr s else Inl e)"
  shows "for_each xs body s = (if \<forall>x\<in>set xs. sk x then Inr s else Inl e)"
  using assms by (induction xs) auto

lemma nest4_skip_fail:
  assumes "\<And>j l i k. j \<in> set js \<Longrightarrow> l \<in> set ls \<Longrightarrow> i \<in> set iz \<Longrightarrow> k \<in> set ks \<Longrightarrow>
             body j l i k s = (if sk j l i k then Inr s else Inl e)"
  shows "for_each js (\<lambda>j. for_each ls (\<lambda>l. for_each iz (\<lambda>i. for_each ks (\<lambda>k. body j l i k)))) s =
         (if \<forall>j\<in>set js. \<forall>l\<in>set ls. \<forall>i\<in>set iz. \<forall>k\<in>set ks. sk j l i k then Inr s else Inl e)"
  by (intro for_each_skip_fail assms)

lemma nest4_combos_Nil:
  "[(j, l, i, k). j \<leftarrow> js, l \<leftarrow> ls, i \<leftarrow> iz, k \<leftarrow> ks, P j l i k] = [] \<longleftrightarrow>
   (\<forall>j\<in>set js. \<forall>l\<in>set ls. \<forall>i\<in>set iz. \<forall>k\<in>set ks. \<not> P j l i k)"
proof -
  have one: "\<And>(f :: 'e \<Rightarrow> 'f list) xs. concat (map f xs) = [] \<longleftrightarrow> (\<forall>x\<in>set xs. f x = [])"
    by simp
  show ?thesis
    by (simp only: one) simp
qed

lemma length_concat_le:
  assumes "\<And>x. x \<in> set xs \<Longrightarrow> length (f x) \<le> c"
  shows "length (concat (map f xs)) \<le> length xs * c"
  using assms by (induction xs) (auto simp: add_mono)

lemma length_range_int [simp]: "length (range_int k) = nat k"
  by (simp add: range_int_def)

lemma set_range_int: "set (range_int k) = {0..<k}"
proof -
  have "set (range_int k) = int ` {0..<nat k}"
    by (simp add: range_int_def)
  also have "\<dots> = {0..<int (nat k)}"
    by (simp add: image_int_atLeastLessThan)
  also have "\<dots> = {0..<k}"
    by auto
  finally show ?thesis .
qed

lemma if_le_swap: "(if (x::int) \<le> y then u else v) = (if y < x then v else u)"
  by auto

lemma xcte11_entries_prog:
  "xcte11_entries L kt kr p1 xcte1 row0 col0 =
     concat (map (\<lambda>j1. concat (map (\<lambda>l1. concat (map (\<lambda>i1. concat (map (\<lambda>k1.
        if col0 + num * (l1 * m p1 + k1) < row0 + num * (j1 * m p1 + i1) then []
        else xcte11_triples L kt kr p1 xcte1 row0 col0 j1 l1 i1 k1)
      (range_int (m p1)))) (range_int (m p1)))) (range_int (n p1)))) (range_int (n p1)))"
  unfolding xcte11_entries_def xcte11_combos_def nest4_combos
  by (simp only: if_le_swap)

lemma fdim3_nonneg: "0 \<le> 3 * m1 * n1 * m1 * (n1::int)"
proof -
  have eq: "3 * m1 * n1 * m1 * n1 = 3 * (m1 * n1)\<^sup>2"
    by (simp add: power2_eq_square algebra_simps)
  have "0 \<le> 3 * (m1 * n1)\<^sup>2"
    by simp
  then show ?thesis
    unfolding eq .
qed

lemma nat_fdim3: "0 \<le> m1 \<Longrightarrow> 0 \<le> n1 \<Longrightarrow> nat (3 * m1 * n1 * m1 * n1) = 3 * nat m1 * nat n1 * nat m1 * nat n1"
  by (simp add: nat_mult_distrib)

lemma xcte11_triples_length [simp]:
  "length (xcte11_triples L kt kr p1 xcte1 row0 col0 j1 l1 i1 k1) = 3"
  by (simp add: xcte11_triples_def Let_def)

lemma length_nest4_le:
  assumes "\<And>j l i k. length (f j l i k) \<le> c"
  shows "length (concat (map (\<lambda>j. concat (map (\<lambda>l. concat (map (\<lambda>i. concat (map (\<lambda>k.
      f j l i k) ks)) iz)) ls)) js)) \<le> length js * (length ls * (length iz * (length ks * c)))"
  by (intro length_concat_le assms)

lemma xcte11_entries_length:
  "length (xcte11_entries L kt kr p1 xcte1 row0 col0) \<le> nat (3 * m p1 * n p1 * m p1 * n p1)"
proof -
  have "length (xcte11_entries L kt kr p1 xcte1 row0 col0)
      \<le> nat (n p1) * (nat (n p1) * (nat (m p1) * (nat (m p1) * 3)))"
    unfolding xcte11_entries_prog
    using length_nest4_le [where c = 3 and js = "range_int (n p1)" and ls = "range_int (n p1)"
        and iz = "range_int (m p1)" and ks = "range_int (m p1)"
        and f = "\<lambda>j1 l1 i1 k1. if col0 + num * (l1 * m p1 + k1) < row0 + num * (j1 * m p1 + i1) then []
        else xcte11_triples L kt kr p1 xcte1 row0 col0 j1 l1 i1 k1"]
    by simp
  also have "\<dots> \<le> nat (3 * m p1 * n p1 * m p1 * n p1)"
  proof (cases "0 \<le> m p1 \<and> 0 \<le> n p1")
    case True
    then show ?thesis by (simp add: nat_fdim3)
  next
    case False
    then show ?thesis by auto
  qed
  finally show ?thesis .
qed

lemma filled_padded:
  "\<lparr>coo_data = valbuf (filled N es), coo_row = rowbuf (filled N es),
    coo_col = colbuf (filled N es), coo_shape = (sz, sz)\<rparr> = padded N sz es"
  by (simp add: filled_def padded_def)

lemma fkCBFxcte11_ok:
  assumes "a p1 \<noteq> 0" "kt \<noteq> 0"
  shows "fkCBFxcte11 L kt kr p1 xcte1 sz row0 col0 =
     Inr (padded (nat (3 * m p1 * n p1 * m p1 * n p1)) sz
            (xcte11_entries L kt kr p1 xcte1 row0 col0))"
proof -
  have "fkCBFxcte11 L kt kr p1 xcte1 sz row0 col0 =
      and_then (write_all (xcte11_entries L kt kr p1 xcte1 row0 col0)
                  (fresh (nat (3 * m p1 * n p1 * m p1 * n p1))))
        (\<lambda>s. Inr \<lparr>coo_data = valbuf s, coo_row = rowbuf s, coo_col = colbuf s,
                  coo_shape = (sz, sz)\<rparr>)"
    unfolding fkCBFxcte11_def Let_def xcte11_entries_prog xcte11_triples_def
      xcte11_u_def xcte11_v_def xcte11_w_def fresh_def
    using assms
    by (simp only: store_write_all fdiv_nz and_then_Inr and_then_write_all if_write_all
        for_each_write_all mult_eq_0_iff simp_thms append.simps np_zeros_nonneg fdim3_nonneg)
  then show ?thesis
    by (simp add: write_all_fresh xcte11_entries_length filled_padded)
qed

lemma fdiv_zero: "fdiv x 0 = Inl DivisionByZero"
  by (simp add: fdiv_def)

lemma store_fresh_chain:
  assumes "2 \<le> N"
  shows "and_then (store r1 c1 x1 (fresh N)) (\<lambda>s. and_then (store r2 c2 x2 s) (\<lambda>s. Inl e)) = Inl e"
  using assms by (simp add: fresh_filled store_filled)

lemma range_int_pos: "x \<in> set (range_int k) \<Longrightarrow> 0 < k"
  by (auto simp: set_range_int)

lemma fdim3_ge: "0 < m1 \<Longrightarrow> 0 < n1 \<Longrightarrow> 2 \<le> nat (3 * m1 * n1 * m1 * (n1::int))"
proof -
  assume pos: "0 < m1" "0 < n1"
  define P where "P = nat m1 * nat n1 * nat m1 * nat n1"
  have "0 < P"
    using pos by (simp add: P_def)
  then have "2 \<le> 3 * P"
    by linarith
  moreover have "nat (3 * m1 * n1 * m1 * n1) = 3 * P"
    using pos by (simp add: P_def nat_mult_distrib)
  ultimately show ?thesis
    by (simp only:)
qed

lemma fkCBFxcte11_kt0:
  assumes "a p1 \<noteq> 0" "kt = 0"
  shows "fkCBFxcte11 L kt kr p1 xcte1 sz row0 col0 =
     (if xcte11_combos p1 row0 col0 = [] then
        Inr (padded (nat (3 * m p1 * n p1 * m p1 * n p1)) sz [])
      else Inl DivisionByZero)"
  unfolding fkCBFxcte11_def Let_def
  using assms
  apply (simp only: fdiv_nz and_then_Inr np_zeros_nonneg fdim3_nonneg fresh_def [symmetric] simp_thms)
  apply (subst nest4_skip_fail [where e = DivisionByZero
        and sk = "\<lambda>j1 l1 i1 k1. col0 + num * (l1 * m p1 + k1) < row0 + num * (j1 * m p1 + i1)"])
   apply (simp only: mult_zero_right fdiv_zero and_then_Inl)
   apply (simp add: store_fresh_chain fdim3_ge range_int_pos)
  apply (simp only: xcte11_combos_def nest4_combos_Nil not_le)
  apply (simp add: fresh_filled filled_padded)
  done

lemma fkCBFxcte11_a0:
  assumes "a p1 = 0"
  shows "fkCBFxcte11 L kt kr p1 xcte1 sz row0 col0 = Inl DivisionByZero"
  unfolding fkCBFxcte11_def Let_def
  using assms by (simp only: fdiv_zero and_then_Inl)

lemma xcte11_entries_Nil:
  "xcte11_combos p1 row0 col0 = [] \<Longrightarrow> xcte11_entries L kt kr p1 xcte1 row0 col0 = []"
  by (simp add: xcte11_entries_def)

lemma fkCBFxcte11_char:
  "fkCBFxcte11 L kt kr p1 xcte1 sz row0 col0 =
     (if a p1 = 0 \<or> (kt = 0 \<and> xcte11_combos p1 row0 col0 \<noteq> []) then Inl DivisionByZero
      else Inr (padded (nat (3 * m p1 * n p1 * m p1 * n p1)) sz
                  (xcte11_entries L kt kr p1 xcte1 row0 col0)))"
proof (cases "a p1 = 0")
  case True
  then show ?thesis
    by (simp add: fkCBFxcte11_a0)
next
  case nz: False
  show ?thesis
  proof (cases "kt = 0")
    case True
    with nz show ?thesis
      by (simp add: fkCBFxcte11_kt0 xcte11_entries_Nil)
  next
    case False
    with nz show ?thesis
      by (simp add: fkCBFxcte11_ok)
  qed
qed

lemma ycte22_entries_prog:
  "ycte22_entries L kt kr p2 ycte2 row0 col0 =
     concat (map (\<lambda>i2. concat (map (\<lambda>k2. concat (map (\<lambda>j2. concat (map (\<lambda>l2.
        if col0 + num * (l2 * m p2 + k2) < row0 + num * (j2 * m p2 + i2) then []
        else ycte22_triples L kt kr p2 ycte2 row0 col0 i2 k2 j2 l2)
      (range_int (n p2)))) (range_int (n p2)))) (range_int (m p2)))) (range_int (m p2)))"
  unfolding ycte22_entries_def ycte22_combos_def nest4_combos
  by (simp only: if_le_swap)

lemma ycte22_triples_length [simp]:
  "length (ycte22_triples L kt kr p2 ycte2 row0 col0 i2 k2 j2 l2) = 3"
  by (simp add: ycte22_triples_def Let_def)

lemma ycte22_entries_length:
  "length (ycte22_entries L kt kr p2 ycte2 row0 col0) \<le> nat (3 * m p2 * n p2 * m p2 * n p2)"
proof -
  have "length (ycte22_entries L kt kr p2 ycte2 row0 col0)
      \<le> nat (m p2) * (nat (m p2) * (nat (n p2) * (nat (n p2) * 3)))"
    unfolding ycte22_entries_prog
    using length_nest4_le [where c = 3 and js = "range_int (m p2)" and ls = "range_int (m p2)"
        and iz = "range_int (n p2)" and ks = "range_int (n p2)"
        and f = "\<lambda>i2 k2 j2 l2. if col0 + num * (l2 * m p2 + k2) < row0 + num * (j2 * m p2 + i2) then []
        else ycte22_triples L kt kr p2 ycte2 row0 col0 i2 k2 j2 l2"]
    by simp
  also have "\<dots> \<le> nat (3 * m p2 * n p2 * m p2 * n p2)"
  proof (cases "0 \<le> m p2 \<and> 0 \<le> n p2")
    case True
    then show ?thesis by (simp add: nat_fdim3)
  next
    case False
    then show ?thesis by auto
  qed
  finally show ?thesis .
qed

lemma fkCBFycte22_ok:
  assumes "b p2 \<noteq> 0" "kt \<noteq> 0"
  shows "fkCBFycte22 L kt kr p1 p2 ycte2 sz row0 col0 =
     Inr (padded (nat (3 * m p2 * n p2 * m p2 * n p2)) sz
            (ycte22_entries L kt kr p2 ycte2 row0 col0))"
proof -
  have "fkCBFycte22 L kt kr p1 p2 ycte2 sz row0 col0 =
      and_then (write_all (ycte22_entries L kt kr p2 ycte2 row0 col0)
                  (fresh (nat (3 * m p2 * n p2 * m p2 * n p2))))
        (\<lambda>s. Inr \<lparr>coo_data = valbuf s, coo_row = rowbuf s, coo_col = colbuf s,
                  coo_shape = (sz, sz)\<rparr>)"
    unfolding fkCBFycte22_def Let_def ycte22_entries_prog ycte22_triples_def
      ycte22_u_def ycte22_v_def ycte22_w_def fresh_def
    using assms
    by (simp only: store_write_all fdiv_nz and_then_Inr and_then_write_all if_write_all
        for_each_write_all mult_eq_0_iff simp_thms append.simps np_zeros_nonneg fdim3_nonneg)
  then show ?thesis
    by (simp add: write_all_fresh ycte22_entries_length filled_padded)
qed

lemma fkCBFycte22_kt0:
  assumes "b p2 \<noteq> 0" "kt = 0"
  shows "fkCBFycte22 L kt kr p1 p2 ycte2 sz row0 col0 =
     (if ycte22_combos p2 row0 col0 = [] then
        Inr (padded (nat (3 * m p2 * n p2 * m p2 * n p2)) sz [])
      else Inl DivisionByZero)"
  unfolding fkCBFycte22_def Let_def
  using assms
  apply (simp only: fdiv_nz and_then_Inr np_zeros_nonneg fdim3_nonneg fresh_def [symmetric] simp_thms)
  apply (subst nest4_skip_fail [where e = DivisionByZero
        and sk = "\<lambda>i2 k2 j2 l2. col0 + num * (l2 * m p2 + k2) < row0 + num * (j2 * m p2 + i2)"])
   apply (simp only: mult_zero_right fdiv_zero and_then_Inl)
   apply (simp add: store_fresh_chain fdim3_ge range_int_pos)
  apply (simp only: ycte22_combos_def nest4_combos_Nil not_le)
  apply (simp add: fresh_filled filled_padded)
  done

lemma fkCBFycte22_b0:
  assumes "b p2 = 0"
  shows "fkCBFycte22 L kt kr p1 p2 ycte2 sz row0 col0 = Inl DivisionByZero"
  unfolding fkCBFycte22_def Let_def
  using assms by (simp only: fdiv_zero and_then_Inl)

lemma ycte22_entries_Nil:
  "ycte22_combos p2 row0 col0 = [] \<Longrightarrow> ycte22_entries L kt kr p2 ycte2 row0 col0 = []"
  by (simp add: ycte22_entries_def)

lemma fkCBFycte22_char:
  "fkCBFycte22 L kt kr p1 p2 ycte2 sz row0 col0 =
     (if b p2 = 0 \<or> (kt = 0 \<and> ycte22_combos p2 row0 col0 \<noteq> []) then Inl DivisionByZero
      else Inr (padded (nat (3 * m p2 * n p2 * m p2 * n p2)) sz
                  (ycte22_entries L kt kr p2 ycte2 row0 col0)))"
proof (cases "b p2 = 0")
  case True
  then show ?thesis
    by (simp add: fkCBFycte22_b0)
next
  case nz: False
  show ?thesis
  proof (cases "kt = 0")
    case True
    with nz show ?thesis
      by (simp add: fkCBFycte22_kt0 ycte22_entries_Nil)
  next
    case False
    with nz show ?thesis
      by (simp add: fkCBFycte22_ok)
  qed
qed

lemma nest4_all:
  "concat (map (\<lambda>(j, l, i, k). T j l i k)
      [(j, l, i, k). j \<leftarrow> js, l \<leftarrow> ls, i \<leftarrow> iz, k \<leftarrow> ks]) =
   concat (map (\<lambda>j. concat (map (\<lambda>l. concat (map (\<lambda>i. concat (map (\<lambda>k.
      T j l i k) ks)) iz)) ls)) js)"
  by (simp only: concat_map_concat_map map_map o_def prod.case)

lemma xycte12_entries_prog:
  "xycte12_entries L kt kr p1 p2 xcte1 ycte2 row0 col0 =
     concat (map (\<lambda>j1. concat (map (\<lambda>k2. concat (map (\<lambda>i1. concat (map (\<lambda>l2.
        xycte12_quads L kt kr p1 p2 xcte1 ycte2 row0 col0 j1 k2 i1 l2)
      (range_int (n p2)))) (range_int (m p1)))) (range_int (m p2)))) (range_int (n p1)))"
  unfolding xycte12_entries_def xycte12_combos_def nest4_all ..

lemma xycte12_quads_length [simp]:
  "length (xycte12_quads L kt kr p1 p2 xcte1 ycte2 row0 col0 j1 k2 i1 l2) = 4"
  by (simp add: xycte12_quads_def Let_def)

lemma xycte12_entries_length:
  assumes "0 \<le> 4 * m p1 * n p1 * m p2 * n p2"
  shows "length (xycte12_entries L kt kr p1 p2 xcte1 ycte2 row0 col0)
           \<le> nat (4 * m p1 * n p1 * m p2 * n p2)"
proof -
  have "length (xycte12_entries L kt kr p1 p2 xcte1 ycte2 row0 col0)
      \<le> nat (n p1) * (nat (m p2) * (nat (m p1) * (nat (n p2) * 4)))"
    unfolding xycte12_entries_prog
    using length_nest4_le [where c = 4 and js = "range_int (n p1)" and ls = "range_int (m p2)"
        and iz = "range_int (m p1)" and ks = "range_int (n p2)"
        and f = "\<lambda>j1 k2 i1 l2. xycte12_quads L kt kr p1 p2 xcte1 ycte2 row0 col0 j1 k2 i1 l2"]
    by simp
  also have "\<dots> \<le> nat (4 * m p1 * n p1 * m p2 * n p2)"
  proof (cases "0 \<le> m p1 \<and> 0 \<le> n p1 \<and> 0 \<le> m p2 \<and> 0 \<le> n p2")
    case True
    then show ?thesis by (simp add: nat_mult_distrib)
  next
    case False
    then show ?thesis by auto
  qed
  finally show ?thesis .
qed

lemma np_zeros_neg: "d < 0 \<Longrightarrow> (np_zeros d :: error + ('z::zero) list) = Inl NegativeDimensions"
  by (simp add: np_zeros_def)

lemma fkCBFxycte12_ok:
  assumes "a p1 \<noteq> 0" "b p2 \<noteq> 0" "0 \<le> 4 * m p1 * n p1 * m p2 * n p2"
  shows "fkCBFxycte12 L kt kr p1 p2 xcte1 ycte2 sz row0 col0 =
     Inr (padded (nat (4 * m p1 * n p1 * m p2 * n p2)) sz
            (xycte12_entries L kt kr p1 p2 xcte1 ycte2 row0 col0))"
proof -
  have "fkCBFxycte12 L kt kr p1 p2 xcte1 ycte2 sz row0 col0 =
      and_then (write_all (xycte12_entries L kt kr p1 p2 xcte1 ycte2 row0 col0)
                  (fresh (nat (4 * m p1 * n p1 * m p2 * n p2))))
        (\<lambda>s. Inr \<lparr>coo_data = valbuf s, coo_row = rowbuf s, coo_col = colbuf s,
                  coo_shape = (sz, sz)\<rparr>)"
    unfolding fkCBFxycte12_def Let_def xycte12_entries_prog xycte12_quads_def
      xycte12_uw_def xycte12_vu_def xycte12_wv_def xycte12_ww_def fresh_def
    using assms
    by (simp only: store_write_all fdiv_nz and_then_Inr and_then_write_all if_write_all
        for_each_write_all mult_eq_0_iff simp_thms append.simps np_zeros_nonneg)
  then show ?thesis
    using assms(3) by (simp add: write_all_fresh xycte12_entries_length filled_padded)
qed

lemma fkCBFxycte12_char:
  "fkCBFxycte12 L kt kr p1 p2 xcte1 ycte2 sz row0 col0 =
     (if a p1 = 0 \<or> b p2 = 0 then Inl DivisionByZero
      else if 4 * m p1 * n p1 * m p2 * n p2 < 0 then Inl NegativeDimensions
      else Inr (padded (nat (4 * m p1 * n p1 * m p2 * n p2)) sz
                  (xycte12_entries L kt kr p1 p2 xcte1 ycte2 row0 col0)))"
proof -
  consider "a p1 = 0" | "a p1 \<noteq> 0" "b p2 = 0"
    | "a p1 \<noteq> 0" "b p2 \<noteq> 0" "4 * m p1 * n p1 * m p2 * n p2 < 0"
    | "a p1 \<noteq> 0" "b p2 \<noteq> 0" "0 \<le> 4 * m p1 * n p1 * m p2 * n p2"
    by linarith
  then show ?thesis
  proof cases
    case 1
    then show ?thesis
      unfolding fkCBFxycte12_def Let_def
      by (simp only: fdiv_zero and_then_Inl simp_thms if_True)
  next
    case 2
    then show ?thesis
      unfolding fkCBFxycte12_def Let_def
      by (simp only: fdiv_zero fdiv_nz and_then_Inr and_then_Inl simp_thms if_True)
  next
    case 3
    then show ?thesis
      unfolding fkCBFxycte12_def Let_def
      by (simp only: fdiv_nz and_then_Inr and_then_Inl simp_thms if_True if_False np_zeros_neg)
  next
    case 4
    then show ?thesis
      by (simp add: fkCBFxycte12_ok)
  qed
qed

section \<open>Slots of the returned buffers\<close>

lemma uniform_concat_length:
  assumes "\<And>x. x \<in> set xs \<Longrightarrow> length (f x) = c"
  shows "length (concat (map f xs)) = length xs * c"
  using assms by (induction xs) auto

lemma uniform_concat_nth:
  assumes "\<And>x. x \<in> set xs \<Longrightarrow> length (f x) = c" and "t < length xs" and "d < c"
  shows "concat (map f xs) ! (t * c + d) = f (xs ! t) ! d"
  using assms
proof (induction xs arbitrary: t)
  case Nil
  then show ?case by simp
next
  case (Cons x xs)
  have lx: "length (f x) = c"
    using Cons.prems(1) by simp
  show ?case
  proof (cases t)
    case 0
    then show ?thesis
      using lx Cons.prems(3) by (simp add: nth_append)
  next
    case (Suc t')
    have "concat (map f xs) ! (t' * c + d) = f (xs ! t') ! d"
      using Cons.IH [of t'] Cons.prems Suc by simp
    then show ?thesis
      using lx Suc by (simp add: nth_append)
  qed
qed

lemma padded_length:
  assumes "length es \<le> N"
  shows "length (coo_row (padded N sz es)) = N" and "length (coo_col (padded N sz es)) = N"
    and "length (coo_data (padded N sz es)) = N"
  using assms by (simp_all add: padded_def)

lemma padded_nth_written:
  assumes "t < length es"
  shows "coo_row (padded N sz es) ! t = fst (es ! t)"
    and "coo_col (padded N sz es) ! t = fst (snd (es ! t))"
    and "coo_data (padded N sz es) ! t = snd (snd (es ! t))"
  using assms by (simp_all add: padded_def nth_append)

lemma padded_nth_unwritten:
  assumes "length es \<le> t" and "t < N"
  shows "coo_row (padded N sz es) ! t = 0"
    and "coo_col (padded N sz es) ! t = 0"
    and "coo_data (padded N sz es) ! t = 0"
  using assms by (simp_all add: padded_def nth_append)

lemma padded_shape [simp]: "coo_shape (padded N sz es) = (sz, sz)"
  by (simp add: padded_def)


lemma xcte11_combos_iff:
  "(j1, l1, i1, k1) \<in> set (xcte11_combos p1 row0 col0) \<longleftrightarrow>
     0 \<le> j1 \<and> j1 < n p1 \<and> 0 \<le> l1 \<and> l1 < n p1 \<and> 0 \<le> i1 \<and> i1 < m p1 \<and> 0 \<le> k1 \<and> k1 < m p1
     \<and> row0 + num * (j1 * m p1 + i1) \<le> col0 + num * (l1 * m p1 + k1)"
  by (auto simp: xcte11_combos_def set_range_int)

lemma ycte22_combos_iff:
  "(i2, k2, j2, l2) \<in> set (ycte22_combos p2 row0 col0) \<longleftrightarrow>
     0 \<le> i2 \<and> i2 < m p2 \<and> 0 \<le> k2 \<and> k2 < m p2 \<and> 0 \<le> j2 \<and> j2 < n p2 \<and> 0 \<le> l2 \<and> l2 < n p2
     \<and> row0 + num * (j2 * m p2 + i2) \<le> col0 + num * (l2 * m p2 + k2)"
  by (auto simp: ycte22_combos_def set_range_int)

lemma xycte12_combos_iff:
  "(j1, k2, i1, l2) \<in> set (xycte12_combos p1 p2) \<longleftrightarrow>
     0 \<le> j1 \<and> j1 < n p1 \<and> 0 \<le> k2 \<and> k2 < m p2 \<and> 0 \<le> i1 \<and> i1 < m p1 \<and> 0 \<le> l2 \<and> l2 < n p2"
  by (auto simp: xycte12_combos_def set_range_int image_iff)

text \<open>What a successful call returns.\<close>

lemma fkCBFxcte11_Inr:
  assumes "fkCBFxcte11 L kt kr p1 xcte1 sz row0 col0 = Inr M"
  shows "M = padded (nat (3 * m p1 * n p1 * m p1 * n p1)) sz
               (xcte11_entries L kt kr p1 xcte1 row0 col0)"
    and "a p1 \<noteq> 0" and "kt \<noteq> 0 \<or> xcte11_combos p1 row0 col0 = []"
  using assms by (auto simp: fkCBFxcte11_char split: if_splits)

lemma fkCBFycte22_Inr:
  assumes "fkCBFycte22 L kt kr p1 p2 ycte2 sz row0 col0 = Inr M"
  shows "M = padded (nat (3 * m p2 * n p2 * m p2 * n p2)) sz
               (ycte22_entries L kt kr p2 ycte2 row0 col0)"
    and "b p2 \<noteq> 0" and "kt \<noteq> 0 \<or> ycte22_combos p2 row0 col0 = []"
  using assms by (auto simp: fkCBFycte22_char split: if_splits)

lemma fkCBFxycte12_Inr:
  assumes "fkCBFxycte12 L kt kr p1 p2 xcte1 ycte2 sz row0 col0 = Inr M"
  shows "M = padded (nat (4 * m p1 * n p1 * m p2 * n p2)) sz
               (xycte12_entries L kt kr p1 p2 xcte1 ycte2 row0 col0)"
    and "a p1 \<noteq> 0" and "b p2 \<noteq> 0" and "0 \<le> 4 * m p1 * n p1 * m p2 * n p2"
  using assms by (auto simp: fkCBFxycte12_char split: if_splits)

text \<open>Entries by slot.\<close>

lemma xcte11_entries_slots:
  "length (xcte11_entries L kt kr p1 xcte1 row0 col0) = length (xcte11_combos p1 row0 col0) * 3"
  unfolding xcte11_entries_def
  by (rule uniform_concat_length) auto

lemma xcte11_entries_nth:
  assumes "t < length (xcte11_combos p1 row0 col0)"
    and "xcte11_combos p1 row0 col0 ! t = (j1, l1, i1, k1)" and "d < 3"
  shows "xcte11_entries L kt kr p1 xcte1 row0 col0 ! (t * 3 + d) =
           xcte11_triples L kt kr p1 xcte1 row0 col0 j1 l1 i1 k1 ! d"
  unfolding xcte11_entries_def
  using assms by (subst uniform_concat_nth [where c = 3]) auto

lemma ycte22_entries_slots:
  "length (ycte22_entries L kt kr p2 ycte2 row0 col0) = length (ycte22_combos p2 row0 col0) * 3"
  unfolding ycte22_entries_def
  by (rule uniform_concat_length) auto

lemma ycte22_entries_nth:
  assumes "t < length (ycte22_combos p2 row0 col0)"
    and "ycte22_combos p2 row0 col0 ! t = (i2, k2, j2, l2)" and "d < 3"
  shows "ycte22_entries L kt kr p2 ycte2 row0 col0 ! (t * 3 + d) =
           ycte22_triples L kt kr p2 ycte2 row0 col0 i2 k2 j2 l2 ! d"
  unfolding ycte22_entries_def
  using assms by (subst uniform_concat_nth [where c = 3]) auto

lemma xycte12_entries_slots:
  "length (xycte12_entries L kt kr p1 p2 xcte1 ycte2 row0 col0) = length (xycte12_combos p1 p2) * 4"
  unfolding xycte12_entries_def
  by (rule uniform_concat_length) auto

lemma xycte12_entries_nth:
  assumes "t < length (xycte12_combos p1 p2)"
    and "xycte12_combos p1 p2 ! t = (j1, k2, i1, l2)" and "d < 4"
  shows "xycte12_entries L kt kr p1 p2 xcte1 ycte2 row0 col0 ! (t * 4 + d) =
           xycte12_quads L kt kr p1 p2 xcte1 ycte2 row0 col0 j1 k2 i1 l2 ! d"
  unfolding xycte12_entries_def
  using assms by (subst uniform_concat_nth [where c = 4]) auto

section \<open>Where the entries are written\<close>

lemma pack_bound:
  fixes j i nn mm :: int
  assumes "0 \<le> j" "j < nn" "0 \<le> i" "i < mm"
  shows "0 \<le> j * mm + i" and "j * mm + i < mm * nn"
proof -
  show "0 \<le> j * mm + i"
    using assms by simp
  have "j + 1 \<le> nn"
    using assms by simp
  then have "(j + 1) * mm \<le> nn * mm"
    using assms by (intro mult_right_mono) simp_all
  then show "j * mm + i < mm * nn"
    using assms by (simp add: algebra_simps)
qed

lemma slot_split:
  assumes "t < k * c"
  obtains q d where "t = q * c + d" "q < k" "d < (c::nat)"
proof -
  have c: "0 < c"
    using assms by (cases c) auto
  have "t = (t div c) * c + t mod c"
    by simp
  moreover have "t div c < k"
    using assms c by (simp add: less_mult_imp_div_less)
  moreover have "t mod c < c"
    using c by simp
  ultimately show ?thesis
    using that by blast
qed

lemma xcte11_triples_nth:
  assumes "d < 3"
  shows "\<exists>x. xcte11_triples L kt kr p1 xcte1 row0 col0 j1 l1 i1 k1 ! d =
           (row0 + 3 * (j1 * m p1 + i1) + int d, col0 + 3 * (l1 * m p1 + k1) + int d, x)"
proof -
  from assms consider "d = 0" | "d = 1" | "d = 2"
    by linarith
  then show ?thesis
    by cases (simp_all add: xcte11_triples_def Let_def num_def)
qed

lemma ycte22_triples_nth:
  assumes "d < 3"
  shows "\<exists>x. ycte22_triples L kt kr p2 ycte2 row0 col0 i2 k2 j2 l2 ! d =
           (row0 + 3 * (j2 * m p2 + i2) + int d, col0 + 3 * (l2 * m p2 + k2) + int d, x)"
proof -
  from assms consider "d = 0" | "d = 1" | "d = 2"
    by linarith
  then show ?thesis
    by cases (simp_all add: ycte22_triples_def Let_def num_def)
qed

lemma xycte12_quads_nth:
  assumes "d < 4"
  shows "\<exists>dr dc x. 0 \<le> dr \<and> dr \<le> 2 \<and> 0 \<le> dc \<and> dc \<le> 2 \<and>
           xycte12_quads L kt kr p1 p2 xcte1 ycte2 row0 col0 j1 k2 i1 l2 ! d =
           (row0 + 3 * (j1 * m p1 + i1) + dr, col0 + 3 * (l2 * m p2 + k2) + dc, x)"
proof -
  let ?q = "xycte12_quads L kt kr p1 p2 xcte1 ycte2 row0 col0 j1 k2 i1 l2"
  let ?r = "row0 + 3 * (j1 * m p1 + i1)"
  let ?c = "col0 + 3 * (l2 * m p2 + k2)"
  let ?x = "snd (snd (?q ! d))"
  from assms consider "d = 0" | "d = 1" | "d = 2" | "d = 3"
    by linarith
  then show ?thesis
  proof cases
    case 1
    then have "?q ! d = (?r + 0, ?c + 0, ?x)"
      by (simp add: xycte12_quads_def Let_def num_def)
    then show ?thesis
      by (intro exI [of _ "0::int"] exI [of _ ?x]) simp
  next
    case 2
    then have "?q ! d = (?r + 1, ?c + 2, ?x)"
      by (simp add: xycte12_quads_def Let_def num_def)
    then show ?thesis
      by (intro exI [of _ "1::int"] exI [of _ "2::int"] exI [of _ ?x]) simp
  next
    case 3
    then have "?q ! d = (?r + 2, ?c + 1, ?x)"
      by (simp add: xycte12_quads_def Let_def num_def)
    then show ?thesis
      by (intro exI [of _ "2::int"] exI [of _ "1::int"] exI [of _ ?x]) simp
  next
    case 4
    then have "?q ! d = (?r + 2, ?c + 2, ?x)"
      by (simp add: xycte12_quads_def Let_def num_def)
    then show ?thesis
      by (intro exI [of _ "2::int"] exI [of _ ?x]) simp
  qed
qed

lemma xcte11_written_form:
  assumes "fkCBFxcte11 L kt kr p1 xcte1 sz row0 col0 = Inr M"
    and "t < 3 * length (xcte11_combos p1 row0 col0)"
  shows "\<exists>j1 l1 i1 k1 d. 0 \<le> j1 \<and> j1 < n p1 \<and> 0 \<le> l1 \<and> l1 < n p1
           \<and> 0 \<le> i1 \<and> i1 < m p1 \<and> 0 \<le> k1 \<and> k1 < m p1 \<and> 0 \<le> d \<and> d \<le> 2
           \<and> coo_row M ! t = row0 + 3 * (j1 * m p1 + i1) + d
           \<and> coo_col M ! t = col0 + 3 * (l1 * m p1 + k1) + d"
proof -
  let ?cs = "xcte11_combos p1 row0 col0"
  let ?es = "xcte11_entries L kt kr p1 xcte1 row0 col0"
  note res = fkCBFxcte11_Inr [OF assms(1)]
  from assms(2) have "t < length ?cs * 3"
    by (simp add: mult.commute)
  then obtain q d where qd: "t = q * 3 + d" "q < length ?cs" "d < 3"
    by (rule slot_split)
  obtain j1 l1 i1 k1 where c: "?cs ! q = (j1, l1, i1, k1)"
    by (cases "?cs ! q") auto
  then have mem: "(j1, l1, i1, k1) \<in> set ?cs"
    using qd(2) by (metis nth_mem)
  have "?es ! t = xcte11_triples L kt kr p1 xcte1 row0 col0 j1 l1 i1 k1 ! d"
    unfolding qd(1) using qd c by (intro xcte11_entries_nth) simp_all
  then obtain x where e: "?es ! t = (row0 + 3 * (j1 * m p1 + i1) + int d,
      col0 + 3 * (l1 * m p1 + k1) + int d, x)"
    using xcte11_triples_nth [OF qd(3)] by metis
  have "t < length ?es"
    using assms(2) by (simp add: xcte11_entries_slots)
  then have "coo_row M ! t = row0 + 3 * (j1 * m p1 + i1) + int d"
    and "coo_col M ! t = col0 + 3 * (l1 * m p1 + k1) + int d"
    unfolding res(1) using e by (simp_all add: padded_nth_written)
  moreover have "0 \<le> int d" "int d \<le> 2"
    using qd(3) by simp_all
  ultimately show ?thesis
    using mem unfolding xcte11_combos_iff by blast
qed

lemma ycte22_written_form:
  assumes "fkCBFycte22 L kt kr p1 p2 ycte2 sz row0 col0 = Inr M"
    and "t < 3 * length (ycte22_combos p2 row0 col0)"
  shows "\<exists>i2 k2 j2 l2 d. 0 \<le> i2 \<and> i2 < m p2 \<and> 0 \<le> k2 \<and> k2 < m p2
           \<and> 0 \<le> j2 \<and> j2 < n p2 \<and> 0 \<le> l2 \<and> l2 < n p2 \<and> 0 \<le> d \<and> d \<le> 2
           \<and> coo_row M ! t = row0 + 3 * (j2 * m p2 + i2) + d
           \<and> coo_col M ! t = col0 + 3 * (l2 * m p2 + k2) + d"
proof -
  let ?cs = "ycte22_combos p2 row0 col0"
  let ?es = "ycte22_entries L kt kr p2 ycte2 row0 col0"
  note res = fkCBFycte22_Inr [OF assms(1)]
  from assms(2) have "t < length ?cs * 3"
    by (simp add: mult.commute)
  then obtain q d where qd: "t = q * 3 + d" "q < length ?cs" "d < 3"
    by (rule slot_split)
  obtain i2 k2 j2 l2 where c: "?cs ! q = (i2, k2, j2, l2)"
    by (cases "?cs ! q") auto
  then have mem: "(i2, k2, j2, l2) \<in> set ?cs"
    using qd(2) by (metis nth_mem)
  have "?es ! t = ycte22_triples L kt kr p2 ycte2 row0 col0 i2 k2 j2 l2 ! d"
    unfolding qd(1) using qd c by (intro ycte22_entries_nth) simp_all
  then obtain x where e: "?es ! t = (row0 + 3 * (j2 * m p2 + i2) + int d,
      col0 + 3 * (l2 * m p2 + k2) + int d, x)"
    using ycte22_triples_nth [OF qd(3)] by metis
  have "t < length ?es"
    using assms(2) by (simp add: ycte22_entries_slots)
  then have "coo_row M ! t = row0 + 3 * (j2 * m p2 + i2) + int d"
    and "coo_col M ! t = col0 + 3 * (l2 * m p2 + k2) + int d"
    unfolding res(1) using e by (simp_all add: padded_nth_written)
  moreover have "0 \<le> int d" "int d \<le> 2"
    using qd(3) by simp_all
  ultimately show ?thesis
    using mem unfolding ycte22_combos_iff by blast
qed

lemma xycte12_combos_length:
  "length (xycte12_combos p1 p2) = nat (n p1) * (nat (m p2) * (nat (m p1) * nat (n p2)))"
proof -
  have "length (xycte12_combos p1 p2) =
      length (range_int (n p1)) * (length (range_int (m p2)) *
        (length (range_int (m p1)) * length (range_int (n p2))))"
    unfolding xycte12_combos_def
    by (intro uniform_concat_length) simp
  then show ?thesis
    by simp
qed

lemma xycte12_entries_full:
  assumes "0 \<le> m p1" "0 \<le> n p1" "0 \<le> m p2" "0 \<le> n p2"
  shows "length (xycte12_entries L kt kr p1 p2 xcte1 ycte2 row0 col0) =
           nat (4 * m p1 * n p1 * m p2 * n p2)"
  using assms by (simp add: xycte12_entries_slots xycte12_combos_length nat_mult_distrib)

lemma xycte12_written_form:
  assumes "fkCBFxycte12 L kt kr p1 p2 xcte1 ycte2 sz row0 col0 = Inr M"
    and "0 \<le> m p1" "0 \<le> n p1" "0 \<le> m p2" "0 \<le> n p2"
    and "t < length (coo_row M)"
  shows "\<exists>j1 k2 i1 l2 dr dc. 0 \<le> j1 \<and> j1 < n p1 \<and> 0 \<le> k2 \<and> k2 < m p2
           \<and> 0 \<le> i1 \<and> i1 < m p1 \<and> 0 \<le> l2 \<and> l2 < n p2
           \<and> 0 \<le> dr \<and> dr \<le> 2 \<and> 0 \<le> dc \<and> dc \<le> 2
           \<and> coo_row M ! t = row0 + 3 * (j1 * m p1 + i1) + dr
           \<and> coo_col M ! t = col0 + 3 * (l2 * m p2 + k2) + dc"
proof -
  let ?cs = "xycte12_combos p1 p2"
  let ?es = "xycte12_entries L kt kr p1 p2 xcte1 ycte2 row0 col0"
  note res = fkCBFxycte12_Inr [OF assms(1)]
  have full: "length (coo_row M) = length ?es"
    unfolding res(1) using assms(2-5) by (simp add: padded_length xycte12_entries_full)
  with assms(6) have "t < length ?cs * 4"
    by (simp add: xycte12_entries_slots)
  then obtain q d where qd: "t = q * 4 + d" "q < length ?cs" "d < 4"
    by (rule slot_split)
  obtain j1 k2 i1 l2 where c: "?cs ! q = (j1, k2, i1, l2)"
    by (cases "?cs ! q") auto
  then have mem: "(j1, k2, i1, l2) \<in> set ?cs"
    using qd(2) by (metis nth_mem)
  have "?es ! t = xycte12_quads L kt kr p1 p2 xcte1 ycte2 row0 col0 j1 k2 i1 l2 ! d"
    unfolding qd(1) using qd c by (intro xycte12_entries_nth) simp_all
  then obtain dr dc x where e: "0 \<le> dr" "dr \<le> 2" "0 \<le> dc" "dc \<le> 2"
      "?es ! t = (row0 + 3 * (j1 * m p1 + i1) + dr, col0 + 3 * (l2 * m p2 + k2) + dc, x)"
    using xycte12_quads_nth [OF qd(3)] by metis
  have "t < length ?es"
    using assms(6) full by simp
  then have "coo_row M ! t = row0 + 3 * (j1 * m p1 + i1) + dr"
    and "coo_col M ! t = col0 + 3 * (l2 * m p2 + k2) + dc"
    unfolding res(1) using e(5) by (simp_all add: padded_nth_written)
  then show ?thesis
    using mem e(1-4) unfolding xycte12_combos_iff by blast
qed

text \<open>The slots after the written ones keep the zeros of \<open>np.zeros\<close>.\<close>

lemma xcte11_unwritten:
  assumes "fkCBFxcte11 L kt kr p1 xcte1 sz row0 col0 = Inr M"
    and "3 * length (xcte11_combos p1 row0 col0) \<le> t" and "t < length (coo_row M)"
  shows "coo_row M ! t = 0 \<and> coo_col M ! t = 0 \<and> coo_data M ! t = 0"
proof -
  note res = fkCBFxcte11_Inr [OF assms(1)]
  have "length (coo_row M) = nat (3 * m p1 * n p1 * m p1 * n p1)"
    unfolding res(1) by (rule padded_length) (rule xcte11_entries_length)
  then have "t < nat (3 * m p1 * n p1 * m p1 * n p1)"
    using assms(3) by simp
  moreover have "length (xcte11_entries L kt kr p1 xcte1 row0 col0) \<le> t"
    using assms(2) by (simp add: xcte11_entries_slots)
  ultimately show ?thesis
    unfolding res(1) by (simp add: padded_nth_unwritten)
qed

lemma ycte22_unwritten:
  assumes "fkCBFycte22 L kt kr p1 p2 ycte2 sz row0 col0 = Inr M"
    and "3 * length (ycte22_combos p2 row0 col0) \<le> t" and "t < length (coo_row M)"
  shows "coo_row M ! t = 0 \<and> coo_col M ! t = 0 \<and> coo_data M ! t = 0"
proof -
  note res = fkCBFycte22_Inr [OF assms(1)]
  have "length (coo_row M) = nat (3 * m p2 * n p2 * m p2 * n p2)"
    unfolding res(1) by (rule padded_length) (rule ycte22_entries_length)
  then have "t < nat (3 * m p2 * n p2 * m p2 * n p2)"
    using assms(3) by simp
  moreover have "length (ycte22_entries L kt kr p2 ycte2 row0 col0) \<le> t"
    using assms(2) by (simp add: ycte22_entries_slots)
  ultimately show ?thesis
    unfolding res(1) by (simp add: padded_nth_unwritten)
qed

lemma block_bound:
  fixes j i nn mm d r0 :: int
  assumes "0 \<le> j" "j < nn" "0 \<le> i" "i < mm" "0 \<le> d" "d \<le> 2"
  shows "r0 \<le> r0 + 3 * (j * mm + i) + d" and "r0 + 3 * (j * mm + i) + d < r0 + 3 * mm * nn"
  using pack_bound [OF assms(1-4)] assms(5,6) by simp_all




section \<open>Symmetry of the single-edge procedures\<close>









section \<open>How many combinations pass the symmetry test\<close>

lemma sum_flatten:
  fixes F :: "nat \<Rightarrow> nat"
  shows "(\<Sum>l<nn. \<Sum>k<mm. F (l * mm + k)) = (\<Sum>q<nn * mm. F q)"
proof (induction nn)
  case 0
  then show ?case by simp
next
  case (Suc nn)
  have "(\<Sum>q<Suc nn * mm. F q) = (\<Sum>q<nn * mm. F q) + (\<Sum>q = nn * mm..<nn * mm + mm. F q)"
    by (simp add: lessThan_atLeast0 sum.atLeastLessThan_concat add.commute)
  also have "(\<Sum>q = nn * mm..<nn * mm + mm. F q) = (\<Sum>k<mm. F (nn * mm + k))"
    using sum.shift_bounds_nat_ivl [of F 0 "nn * mm" mm]
    by (simp add: lessThan_atLeast0 add.commute)
  finally show ?case
    using Suc.IH by simp
qed

lemma sum_plus_one:
  "(\<Sum>p<N. g p + (1::nat)) = (\<Sum>p<N. g p) + N"
  by (induction N) simp_all

lemma triangle_count:
  "(\<Sum>p<N. \<Sum>q<N. if p \<le> q then 1 else 0) * 2 = N * (N + (1::nat))"
proof (induction N)
  case 0
  then show ?case by simp
next
  case (Suc N)
  have "(\<Sum>p<Suc N. \<Sum>q<Suc N. if p \<le> q then 1 else 0)
      = (\<Sum>p<N. (\<Sum>q<N. if p \<le> q then 1 else 0) + (1::nat)) + 1"
    by simp
  also have "\<dots> = (\<Sum>p<N. \<Sum>q<N. if p \<le> q then 1 else 0) + N + 1"
    by (simp only: sum_plus_one)
  finally show ?case
    using Suc.IH by simp
qed

lemma upper_pairs_count:
  "(\<Sum>j<nn. \<Sum>l<nn. \<Sum>i<mm. \<Sum>k<mm. if j * mm + i \<le> l * mm + k then 1 else 0) * 2
     = (nn * mm) * (nn * mm + (1::nat))"
proof -
  have "(\<Sum>j<nn. \<Sum>l<nn. \<Sum>i<mm. \<Sum>k<mm. if j * mm + i \<le> l * mm + k then 1 else (0::nat))
      = (\<Sum>j<nn. \<Sum>i<mm. \<Sum>l<nn. \<Sum>k<mm. if j * mm + i \<le> l * mm + k then 1 else 0)"
    by (intro sum.cong refl sum.swap)
  also have "\<dots> = (\<Sum>j<nn. \<Sum>i<mm. \<Sum>q<nn * mm. if j * mm + i \<le> q then 1 else 0)"
    by (simp add: sum_flatten [where F = "\<lambda>q. if _ \<le> q then 1 else 0"])
  also have "\<dots> = (\<Sum>p<nn * mm. \<Sum>q<nn * mm. if p \<le> q then 1 else 0)"
    by (rule sum_flatten [where F = "\<lambda>p. \<Sum>q<nn * mm. if p \<le> q then 1 else 0"])
  finally show ?thesis
    by (simp only: triangle_count)
qed

lemma length_nest4_filter:
  "length [(j, l, i, k). j \<leftarrow> js, l \<leftarrow> ls, i \<leftarrow> iz, k \<leftarrow> ks, P j l i k] =
     sum_list (map (\<lambda>j. sum_list (map (\<lambda>l. sum_list (map (\<lambda>i. sum_list (map (\<lambda>k.
       if P j l i k then 1 else 0) ks)) iz)) ls)) js)"
proof -
  have one: "length (if c then [x] else []) = (if c then 1 else 0)" for c and x :: 'e
    by simp
  show ?thesis
    by (simp only: length_concat map_map o_def one)
qed

lemma sum_list_range_int:
  fixes g :: "int \<Rightarrow> nat"
  shows "sum_list (map g (range_int k)) = (\<Sum>x<nat k. g (int x))"
  by (simp add: range_int_def o_def interv_sum_list_conv_sum_set_nat lessThan_atLeast0)

lemma packed_le_iff:
  assumes "0 \<le> mm"
  shows "r + num * (int j * mm + int i) \<le> r + num * (int l * mm + int k)
     \<longleftrightarrow> j * nat mm + i \<le> l * nat mm + k"
proof -
  have e: "int j * mm + int i = int (j * nat mm + i)" "int l * mm + int k = int (l * nat mm + k)"
    using assms by simp_all
  have aux: "r + 3 * x \<le> r + 3 * y \<longleftrightarrow> x \<le> y" for x y :: int
    by presburger
  have "r + num * (int j * mm + int i) \<le> r + num * (int l * mm + int k)
     \<longleftrightarrow> int (j * nat mm + i) \<le> int (l * nat mm + k)"
    unfolding e num_def by (rule aux)
  then show ?thesis
    by (simp only: of_nat_le_iff)
qed

lemma xcte11_combos_count:
  "length (xcte11_combos p1 r r) * 2 =
     (nat (n p1) * nat (m p1)) * (nat (n p1) * nat (m p1) + 1)"
proof (cases "0 \<le> m p1")
  case True
  have "length (xcte11_combos p1 r r) =
      (\<Sum>j<nat (n p1). \<Sum>l<nat (n p1). \<Sum>i<nat (m p1). \<Sum>k<nat (m p1).
         if j * nat (m p1) + i \<le> l * nat (m p1) + k then 1 else 0)"
    unfolding xcte11_combos_def length_nest4_filter
    by (simp only: sum_list_range_int packed_le_iff [OF True])
  then show ?thesis
    by (simp only: upper_pairs_count)
next
  case False
  then have "range_int (m p1) = []"
    by (simp add: range_int_def)
  then have "xcte11_combos p1 r r = []"
    by (simp add: xcte11_combos_def)
  with False show ?thesis
    by simp
qed

lemma ycte22_combos_count:
  "length (ycte22_combos p2 r r) * 2 =
     (nat (n p2) * nat (m p2)) * (nat (n p2) * nat (m p2) + 1)"
proof (cases "0 \<le> m p2")
  case True
  have "length (ycte22_combos p2 r r) =
      (\<Sum>i<nat (m p2). \<Sum>k<nat (m p2). \<Sum>j<nat (n p2). \<Sum>l<nat (n p2).
         if j * nat (m p2) + i \<le> l * nat (m p2) + k then 1 else 0)"
    unfolding ycte22_combos_def length_nest4_filter
    by (simp only: sum_list_range_int packed_le_iff [OF True])
  also have "\<dots> = (\<Sum>j<nat (n p2). \<Sum>l<nat (n p2). \<Sum>i<nat (m p2). \<Sum>k<nat (m p2).
         if j * nat (m p2) + i \<le> l * nat (m p2) + k then 1 else 0)"
  proof -
    let ?f = "\<lambda>i k j l. if j * nat (m p2) + i \<le> l * nat (m p2) + k then 1 else (0::nat)"
    let ?M = "{..<nat (m p2)}" and ?N = "{..<nat (n p2)}"
    have "(\<Sum>i\<in>?M. \<Sum>k\<in>?M. \<Sum>j\<in>?N. \<Sum>l\<in>?N. ?f i k j l)
        = (\<Sum>i\<in>?M. \<Sum>j\<in>?N. \<Sum>k\<in>?M. \<Sum>l\<in>?N. ?f i k j l)"
      by (rule sum.cong [OF refl]) (rule sum.swap)
    also have "\<dots> = (\<Sum>j\<in>?N. \<Sum>i\<in>?M. \<Sum>k\<in>?M. \<Sum>l\<in>?N. ?f i k j l)"
      by (rule sum.swap)
    also have "\<dots> = (\<Sum>j\<in>?N. \<Sum>i\<in>?M. \<Sum>l\<in>?N. \<Sum>k\<in>?M. ?f i k j l)"
      by (rule sum.cong [OF refl], rule sum.cong [OF refl]) (rule sum.swap)
    also have "\<dots> = (\<Sum>j\<in>?N. \<Sum>l\<in>?N. \<Sum>i\<in>?M. \<Sum>k\<in>?M. ?f i k j l)"
      by (rule sum.cong [OF refl]) (rule sum.swap)
    finally show ?thesis .
  qed
  finally show ?thesis
    by (simp only: upper_pairs_count)
next
  case False
  then have "range_int (m p2) = []"
    by (simp add: range_int_def)
  then have "ycte22_combos p2 r r = []"
    by (simp add: ycte22_combos_def)
  with False show ?thesis
    by simp
qed

lemma zero_slots_count:
  fixes mm nn :: int and k :: nat
  assumes "0 \<le> mm" "0 \<le> nn"
    and "k * 2 = (nat nn * nat mm) * (nat nn * nat mm + 1)"
  shows "2 * (3 * mm * nn * mm * nn - 3 * int k) = 3 * (mm * nn) * (mm * nn - 1)"
proof -
  define N where "N = mm * nn"
  have "int (k * 2) = int (nat nn * nat mm) * (int (nat nn * nat mm) + 1)"
    unfolding assms(3) by (simp only: of_nat_mult of_nat_add of_nat_1)
  moreover have "int (nat nn * nat mm) = N"
    using assms(1,2) by (simp add: N_def)
  ultimately have k2: "int k * 2 = N * (N + 1)"
    by simp
  have "2 * (3 * N * N - 3 * int k) = 6 * N * N - 3 * (int k * 2)"
    by simp
  also have "\<dots> = 6 * N * N - 3 * (N * (N + 1))"
    by (simp only: k2)
  also have "\<dots> = 3 * N * (N - 1)"
    by (simp add: algebra_simps)
  finally have "2 * (3 * N * N - 3 * int k) = 3 * N * (N - 1)" .
  moreover have "3 * mm * nn * mm * nn = 3 * N * N"
    by (simp add: N_def algebra_simps)
  ultimately show ?thesis
    by (simp only: N_def)
qed

section \<open>Concrete calls\<close>

lemma plain_panel_sel:
  "a (plain_panel mm nn) = 1" "b (plain_panel mm nn) = 1"
  "m (plain_panel mm nn) = mm" "n (plain_panel mm nn) = nn"
  by (simp_all add: plain_panel_def)

lemma example11:
  "fkCBFxcte11 const_lib 1 1 (plain_panel 2 1) 0 9 3 3 = Inr result11"
  by code_simp

lemma example22:
  "fkCBFycte22 const_lib 1 1 (plain_panel 1 1) (plain_panel 1 2) 0 9 3 3 = Inr result22"
  by code_simp

lemma example12:
  "fkCBFxycte12 const_lib 1 1 (plain_panel 1 1) (plain_panel 1 1) 0 0 6 0 3 = Inr result12"
  by code_simp

lemma example11_combos:
  "xcte11_combos (plain_panel 2 1) 3 3 = [(0, 0, 0, 0), (0, 0, 0, 1), (0, 0, 1, 1)]"
  by code_simp

lemma example22_combos:
  "ycte22_combos (plain_panel 1 2) 3 3 = [(0, 0, 0, 0), (0, 0, 0, 1), (0, 0, 1, 1)]"
  by code_simp








section \<open>Claims\<close>

text \<open>
  C1. A call of \<open>fkCBFxycte12\<close> with \<open>m1 = n1 = m2 = n2 = 1\<close> returns exactly four
  entries, and their values pair the fields (u,w), (v,u), (w,v), (w,w): with boundary
  coefficients 2, 3, 5 for u, v, w on panel 1 and 7, 11, 13 on panel 2, and a library
  that hands the coefficients back, the values are \<open>-0.25*(2*13)*2*13\<close>,
  \<open>-0.25*(3*7)*3*7\<close>, \<open>0.25*(5*11)*5*11\<close> and \<open>-(5*13)*5*13\<close>. The positions are
  \<open>(row0, col0)\<close>, \<open>(row0 + 1, col0 + 2)\<close>, \<open>(row0 + 2, col0 + 1)\<close> and
  \<open>(row0 + 2, col0 + 2)\<close>: the u-w value stands in the column of u, not of w, and the
  v-u value in the column of w, not of u. The last two stand where their fields say.
\<close>

theorem fkCBFxycte12_unit_orders:
  "fkCBFxycte12 coeff_lib 1 1 (tagged_panel 2 3 5) (tagged_panel 7 11 13) 0 0 6 0 3
     = Inr result12_tagged
   \<and> coo_triples result12_tagged =
       [(0, 3, - (0.25 * (2 * 13) * 2 * 13)), (1, 5, - (0.25 * (3 * 7) * 3 * 7)),
        (2, 4, 0.25 * (5 * 11) * 5 * 11), (2, 5, - ((5 * 13) * 5 * 13))]"
proof
  show "fkCBFxycte12 coeff_lib 1 1 (tagged_panel 2 3 5) (tagged_panel 7 11 13) 0 0 6 0 3
     = Inr result12_tagged"
    by code_simp
  show "coo_triples result12_tagged =
       [(0, 3, - (0.25 * (2 * 13) * 2 * 13)), (1, 5, - (0.25 * (3 * 7) * 3 * 7)),
        (2, 4, 0.25 * (5 * 11) * 5 * 11), (2, 5, - ((5 * 13) * 5 * 13))]"
    by (simp add: coo_triples_def result12_tagged_def)
qed

text \<open>
  C2, as amended. For every index combination, \<open>fkCBFxycte12\<close> writes four values in
  the order (u,w), (v,u), (w,v), (w,w). The first three are the product of the integral
  and the two basis values of their fields times \<open>-0.25*b1*a2*kt\<close>, \<open>-0.25*b1*a2*kt\<close>
  and \<open>+0.25*b1*a2*kt\<close>: the signs are \<open>-\<close>, \<open>-\<close>, \<open>+\<close> and the prefactor is
  \<open>0.25*b1*a2\<close>. The last one is the product of the w-w integral and the two
  derivatives times \<open>-b1*a2*kr/(a1*b2)\<close>: its sign is \<open>-\<close>, opposite to the third term
  only, it has \<open>kr\<close> in the place of \<open>kt\<close>, no factor 0.25, and the normalisation
  \<open>1/(a1*b2)\<close>.
\<close>

theorem fkCBFxycte12_values:
  assumes "fkCBFxycte12 L kt kr p1 p2 xcte1 ycte2 sz row0 col0 = Inr M"
    and "0 \<le> j1" "j1 < n p1" "0 \<le> k2" "k2 < m p2"
    and "0 \<le> i1" "i1 < m p1" "0 \<le> l2" "l2 < n p2"
  shows "a p1 \<noteq> 0 \<and> b p2 \<noteq> 0 \<and>
    (\<exists>s. 4 * s + 3 < length (coo_data M)
       \<and> coo_row M ! (4 * s) = row0 + 3 * (j1 * m p1 + i1)
       \<and> coo_row M ! (4 * s + 1) = row0 + 3 * (j1 * m p1 + i1) + 1
       \<and> coo_row M ! (4 * s + 2) = row0 + 3 * (j1 * m p1 + i1) + 2
       \<and> coo_row M ! (4 * s + 3) = row0 + 3 * (j1 * m p1 + i1) + 2
       \<and> coo_col M ! (4 * s + 3) = col0 + 3 * (l2 * m p2 + k2) + 2
       \<and> (let xicte1 = 2 * xcte1 / a p1 - 1;
               etacte2 = 2 * ycte2 / b p2 - 1;
               g_uw = integral_ff L j1 k2 (u1ty p1) (u1ry p1) (u2ty p1) (u2ry p1)
                        (w1tx p2) (w1rx p2) (w2tx p2) (w2rx p2);
               g_vu = integral_ff L j1 k2 (v1ty p1) (v1ry p1) (v2ty p1) (v2ry p1)
                        (u1tx p2) (u1rx p2) (u2tx p2) (u2rx p2);
               g_wv = integral_ff L j1 k2 (w1ty p1) (w1ry p1) (w2ty p1) (w2ry p1)
                        (v1tx p2) (v1rx p2) (v2tx p2) (v2rx p2);
               g_ww = integral_ff L j1 k2 (w1ty p1) (w1ry p1) (w2ty p1) (w2ry p1)
                        (w1tx p2) (w1rx p2) (w2tx p2) (w2rx p2);
               f1u = calc_f L i1 xicte1 (u1tx p1) (u1rx p1) (u2tx p1) (u2rx p1);
               f1v = calc_f L i1 xicte1 (v1tx p1) (v1rx p1) (v2tx p1) (v2rx p1);
               f1w = calc_f L i1 xicte1 (w1tx p1) (w1rx p1) (w2tx p1) (w2rx p1);
               f1wxi = calc_fxi L i1 xicte1 (w1tx p1) (w1rx p1) (w2tx p1) (w2rx p1);
               g2u = calc_f L l2 etacte2 (u1ty p2) (u1ry p2) (u2ty p2) (u2ry p2);
               g2v = calc_f L l2 etacte2 (v1ty p2) (v1ry p2) (v2ty p2) (v2ry p2);
               g2w = calc_f L l2 etacte2 (w1ty p2) (w1ry p2) (w2ty p2) (w2ry p2);
               g2wxi = calc_fxi L l2 etacte2 (w1ty p2) (w1ry p2) (w2ty p2) (w2ry p2)
           in coo_data M ! (4 * s) = - (0.25 * b p1 * a p2 * kt) * (g_uw * f1u * g2w)
            \<and> coo_data M ! (4 * s + 1) = - (0.25 * b p1 * a p2 * kt) * (g_vu * f1v * g2u)
            \<and> coo_data M ! (4 * s + 2) = (0.25 * b p1 * a p2 * kt) * (g_wv * f1w * g2v)
            \<and> coo_data M ! (4 * s + 3) = - (b p1 * a p2 * kr / (a p1 * b p2)) * (g_ww * f1wxi * g2wxi)))"
proof -
  let ?cs = "xycte12_combos p1 p2"
  let ?es = "xycte12_entries L kt kr p1 p2 xcte1 ycte2 row0 col0"
  let ?q = "xycte12_quads L kt kr p1 p2 xcte1 ycte2 row0 col0 j1 k2 i1 l2"
  let ?N = "nat (4 * m p1 * n p1 * m p2 * n p2)"
  note res = fkCBFxycte12_Inr [OF assms(1)]
  have mem: "(j1, k2, i1, l2) \<in> set ?cs"
    using assms(2-) by (simp add: xycte12_combos_iff)
  then obtain s where s: "s < length ?cs" "?cs ! s = (j1, k2, i1, l2)"
    by (auto simp: in_set_conv_nth)
  have slot: "s * 4 + 3 < length ?es"
    using s(1) by (simp add: xycte12_entries_slots)
  have entry: "?es ! (s * 4 + d) = ?q ! d" if "d < 4" for d
    using s that by (intro xycte12_entries_nth) simp_all
  have len: "length (coo_data M) = ?N" "length ?es \<le> ?N"
    unfolding res(1) using res(4) by (simp_all add: padded_length xycte12_entries_length)
  have in_range: "4 * s + 3 < length (coo_data M)"
    using slot len by (simp add: mult.commute)
  have written: "coo_row M ! (s * 4 + d) = fst (?q ! d)"
    "coo_col M ! (s * 4 + d) = fst (snd (?q ! d))"
    "coo_data M ! (s * 4 + d) = snd (snd (?q ! d))" if "d < 4" for d
    unfolding res(1) using slot that entry [OF that] by (simp_all add: padded_nth_written)
  have rows: "coo_row M ! (4 * s) = row0 + 3 * (j1 * m p1 + i1)"
    "coo_row M ! (4 * s + 1) = row0 + 3 * (j1 * m p1 + i1) + 1"
    "coo_row M ! (4 * s + 2) = row0 + 3 * (j1 * m p1 + i1) + 2"
    "coo_row M ! (4 * s + 3) = row0 + 3 * (j1 * m p1 + i1) + 2"
    "coo_col M ! (4 * s + 3) = col0 + 3 * (l2 * m p2 + k2) + 2"
    using written(1) [of 0] written(1) [of 1] written(1) [of 2] written(1) [of 3] written(2) [of 3]
    by (simp_all add: xycte12_quads_def Let_def num_def mult.commute [of 4 s])
  have vals: "coo_data M ! (4 * s) =
        xycte12_uw L kt p1 p2 (2 * xcte1 / a p1 - 1) (2 * ycte2 / b p2 - 1) j1 k2 i1 l2"
    "coo_data M ! (4 * s + 1) =
        xycte12_vu L kt p1 p2 (2 * xcte1 / a p1 - 1) (2 * ycte2 / b p2 - 1) j1 k2 i1 l2"
    "coo_data M ! (4 * s + 2) =
        xycte12_wv L kt p1 p2 (2 * xcte1 / a p1 - 1) (2 * ycte2 / b p2 - 1) j1 k2 i1 l2"
    "coo_data M ! (4 * s + 3) =
        xycte12_ww L kr p1 p2 (2 * xcte1 / a p1 - 1) (2 * ycte2 / b p2 - 1) j1 k2 i1 l2"
    using written(3) [of 0] written(3) [of 1] written(3) [of 2] written(3) [of 3]
    by (simp_all add: xycte12_quads_def Let_def mult.commute [of 4 s])
  show ?thesis
    using res(2,3) in_range rows vals
    by (intro conjI exI [of _ s])
      (simp_all add: Let_def xycte12_uw_def xycte12_vu_def xycte12_wv_def xycte12_ww_def)
qed


theorem fkCBFxycte12_values_witness:
  "fkCBFxycte12 const_lib 1 1 (plain_panel 1 1) (plain_panel 1 1) 0 0 6 0 3 = Inr result12
   \<and> (\<exists>s. 4 * s + 3 < length (coo_data result12)
        \<and> coo_row result12 ! (4 * s) = 0
        \<and> coo_row result12 ! (4 * s + 3) = 2
        \<and> coo_col result12 ! (4 * s + 3) = 5
        \<and> coo_data result12 ! (4 * s) = - (1 / 4)
        \<and> coo_data result12 ! (4 * s + 1) = - (1 / 4)
        \<and> coo_data result12 ! (4 * s + 2) = 1 / 4
        \<and> coo_data result12 ! (4 * s + 3) = - 1)"
proof (rule conjI [OF example12])
  show "\<exists>s. 4 * s + 3 < length (coo_data result12)
        \<and> coo_row result12 ! (4 * s) = 0
        \<and> coo_row result12 ! (4 * s + 3) = 2
        \<and> coo_col result12 ! (4 * s + 3) = 5
        \<and> coo_data result12 ! (4 * s) = - (1 / 4)
        \<and> coo_data result12 ! (4 * s + 1) = - (1 / 4)
        \<and> coo_data result12 ! (4 * s + 2) = 1 / 4
        \<and> coo_data result12 ! (4 * s + 3) = - 1"
    using fkCBFxycte12_values [OF example12, of 0 0 0 0]
    by (simp add: plain_panel_sel const_lib_def Let_def) blast
qed

theorem fkCBFxycte12_values_counterexample:
  "fkCBFxycte12 const_lib 1 1 (plain_panel 1 1) (plain_panel 1 1) 0 0 6 0 3 = Inr result12
   \<and> coo_data result12 = [- (1 / 4), - (1 / 4), 1 / 4, - 1]
   \<and> coo_data result12 ! 0 < 0
   \<and> 0 < coo_data result12 ! 2
   \<and> coo_data result12 ! 3 < 0
   \<and> coo_data result12 ! 0 \<noteq> 0.5 * b (plain_panel 1 1) * a (plain_panel 1 1)
   \<and> coo_data result12 ! 0 \<noteq> - (0.5 * b (plain_panel 1 1) * a (plain_panel 1 1))"
  using example12 by (simp add: result12_def plain_panel_sel)






text \<open>
  C5, as amended. Every pair that \<open>fkCBFxcte11\<close> or \<open>fkCBFycte22\<close> writes lies in the
  block of the panel: \<open>row0 \<le> row < row0 + 3*m*n\<close> and \<open>col0 \<le> col < col0 + 3*m*n\<close>. The
  written pairs fill the first slots of the returned buffers, three per combination that
  passes the symmetry test; every later slot keeps the zeros of the allocation, that is
  the pair \<open>(0, 0)\<close> with the value 0, whatever \<open>row0\<close> and \<open>col0\<close> are. For
  \<open>fkCBFxycte12\<close>, with no negative \<open>m\<close> or \<open>n\<close>, every returned pair lies in the block:
  \<open>row0 \<le> row < row0 + 3*m1*n1\<close> and \<open>col0 \<le> col < col0 + 3*m2*n2\<close>.
\<close>

theorem written_pairs_inside_block:
  "(fkCBFxcte11 L kt kr p1 xcte1 sz row0 col0 = Inr M \<longrightarrow>
      (\<forall>t < length (coo_row M).
         if t < 3 * length (xcte11_combos p1 row0 col0)
         then row0 \<le> coo_row M ! t \<and> coo_row M ! t < row0 + 3 * m p1 * n p1
            \<and> col0 \<le> coo_col M ! t \<and> coo_col M ! t < col0 + 3 * m p1 * n p1
         else coo_row M ! t = 0 \<and> coo_col M ! t = 0 \<and> coo_data M ! t = 0))
   \<and> (fkCBFycte22 L kt kr p1 p2 ycte2 sz row0 col0 = Inr M \<longrightarrow>
      (\<forall>t < length (coo_row M).
         if t < 3 * length (ycte22_combos p2 row0 col0)
         then row0 \<le> coo_row M ! t \<and> coo_row M ! t < row0 + 3 * m p2 * n p2
            \<and> col0 \<le> coo_col M ! t \<and> coo_col M ! t < col0 + 3 * m p2 * n p2
         else coo_row M ! t = 0 \<and> coo_col M ! t = 0 \<and> coo_data M ! t = 0))
   \<and> (fkCBFxycte12 L kt kr p1 p2 xcte1 ycte2 sz row0 col0 = Inr M
        \<and> 0 \<le> m p1 \<and> 0 \<le> n p1 \<and> 0 \<le> m p2 \<and> 0 \<le> n p2 \<longrightarrow>
      (\<forall>t < length (coo_row M).
         row0 \<le> coo_row M ! t \<and> coo_row M ! t < row0 + 3 * m p1 * n p1
         \<and> col0 \<le> coo_col M ! t \<and> coo_col M ! t < col0 + 3 * m p2 * n p2))"
proof -
  have A: "if t < 3 * length (xcte11_combos p1 row0 col0)
         then row0 \<le> coo_row M ! t \<and> coo_row M ! t < row0 + 3 * m p1 * n p1
            \<and> col0 \<le> coo_col M ! t \<and> coo_col M ! t < col0 + 3 * m p1 * n p1
         else coo_row M ! t = 0 \<and> coo_col M ! t = 0 \<and> coo_data M ! t = 0"
    if res: "fkCBFxcte11 L kt kr p1 xcte1 sz row0 col0 = Inr M" and t: "t < length (coo_row M)"
    for t
  proof (cases "t < 3 * length (xcte11_combos p1 row0 col0)")
    case True
    from xcte11_written_form [OF res True] obtain j1 l1 i1 k1 d where
      "0 \<le> j1" "j1 < n p1" "0 \<le> l1" "l1 < n p1" "0 \<le> i1" "i1 < m p1" "0 \<le> k1" "k1 < m p1"
      "0 \<le> d" "d \<le> 2"
      "coo_row M ! t = row0 + 3 * (j1 * m p1 + i1) + d"
      "coo_col M ! t = col0 + 3 * (l1 * m p1 + k1) + d"
      by blast
    then show ?thesis
      using True block_bound [of j1 "n p1" i1 "m p1" d row0] block_bound [of l1 "n p1" k1 "m p1" d col0]
      by simp
  next
    case False
    then show ?thesis
      using xcte11_unwritten [OF res _ t] by simp
  qed
  have B: "if t < 3 * length (ycte22_combos p2 row0 col0)
         then row0 \<le> coo_row M ! t \<and> coo_row M ! t < row0 + 3 * m p2 * n p2
            \<and> col0 \<le> coo_col M ! t \<and> coo_col M ! t < col0 + 3 * m p2 * n p2
         else coo_row M ! t = 0 \<and> coo_col M ! t = 0 \<and> coo_data M ! t = 0"
    if res: "fkCBFycte22 L kt kr p1 p2 ycte2 sz row0 col0 = Inr M" and t: "t < length (coo_row M)"
    for t
  proof (cases "t < 3 * length (ycte22_combos p2 row0 col0)")
    case True
    from ycte22_written_form [OF res True] obtain i2 k2 j2 l2 d where
      "0 \<le> i2" "i2 < m p2" "0 \<le> k2" "k2 < m p2" "0 \<le> j2" "j2 < n p2" "0 \<le> l2" "l2 < n p2"
      "0 \<le> d" "d \<le> 2"
      "coo_row M ! t = row0 + 3 * (j2 * m p2 + i2) + d"
      "coo_col M ! t = col0 + 3 * (l2 * m p2 + k2) + d"
      by blast
    then show ?thesis
      using True block_bound [of j2 "n p2" i2 "m p2" d row0] block_bound [of l2 "n p2" k2 "m p2" d col0]
      by simp
  next
    case False
    then show ?thesis
      using ycte22_unwritten [OF res _ t] by simp
  qed
  have C: "row0 \<le> coo_row M ! t \<and> coo_row M ! t < row0 + 3 * m p1 * n p1
         \<and> col0 \<le> coo_col M ! t \<and> coo_col M ! t < col0 + 3 * m p2 * n p2"
    if res: "fkCBFxycte12 L kt kr p1 p2 xcte1 ycte2 sz row0 col0 = Inr M"
      and nonneg: "0 \<le> m p1" "0 \<le> n p1" "0 \<le> m p2" "0 \<le> n p2"
      and t: "t < length (coo_row M)"
    for t
  proof -
    from xycte12_written_form [OF res nonneg t] obtain j1 k2 i1 l2 dr dc where
      "0 \<le> j1" "j1 < n p1" "0 \<le> k2" "k2 < m p2" "0 \<le> i1" "i1 < m p1" "0 \<le> l2" "l2 < n p2"
      "0 \<le> dr" "dr \<le> 2" "0 \<le> dc" "dc \<le> 2"
      "coo_row M ! t = row0 + 3 * (j1 * m p1 + i1) + dr"
      "coo_col M ! t = col0 + 3 * (l2 * m p2 + k2) + dc"
      by blast
    then show ?thesis
      using block_bound [of j1 "n p1" i1 "m p1" dr row0] block_bound [of l2 "n p2" k2 "m p2" dc col0]
      by simp
  qed
  from A B C show ?thesis
    by blast
qed

theorem written_pairs_inside_block_witness:
  "fkCBFxcte11 const_lib 1 1 (plain_panel 2 1) 0 9 3 3 = Inr result11
   \<and> (3 \<le> coo_row result11 ! 7 \<and> coo_row result11 ! 7 < 3 + 3 * 2 * 1
        \<and> 3 \<le> coo_col result11 ! 7 \<and> coo_col result11 ! 7 < 3 + 3 * 2 * 1)
   \<and> (coo_row result11 ! 10 = 0 \<and> coo_col result11 ! 10 = 0 \<and> coo_data result11 ! 10 = 0)
   \<and> fkCBFycte22 const_lib 1 1 (plain_panel 1 1) (plain_panel 1 2) 0 9 3 3 = Inr result22
   \<and> (3 \<le> coo_row result22 ! 7 \<and> coo_row result22 ! 7 < 3 + 3 * 1 * 2
        \<and> 3 \<le> coo_col result22 ! 7 \<and> coo_col result22 ! 7 < 3 + 3 * 1 * 2)
   \<and> fkCBFxycte12 const_lib 1 1 (plain_panel 1 1) (plain_panel 1 1) 0 0 6 0 3 = Inr result12
   \<and> (0 \<le> coo_row result12 ! 3 \<and> coo_row result12 ! 3 < 0 + 3 * 1 * 1
        \<and> 3 \<le> coo_col result12 ! 3 \<and> coo_col result12 ! 3 < 3 + 3 * 1 * 1)"
proof -
  note th = written_pairs_inside_block
  have len11: "length (coo_row result11) = 12" and len22: "length (coo_row result22) = 12"
    and len12: "length (coo_row result12) = 4"
    by (simp_all add: result11_def result22_def result12_def)
  have a: "3 \<le> coo_row result11 ! 7 \<and> coo_row result11 ! 7 < 3 + 3 * 2 * 1
        \<and> 3 \<le> coo_col result11 ! 7 \<and> coo_col result11 ! 7 < 3 + 3 * 2 * 1"
    using th [where M = result11 and ?p1.0 = "plain_panel 2 1" and ?row0.0 = 3 and ?col0.0 = 3,
        THEN conjunct1, rule_format, OF example11, of 7]
    by (simp add: len11 example11_combos plain_panel_sel)
  have b: "coo_row result11 ! 10 = 0 \<and> coo_col result11 ! 10 = 0 \<and> coo_data result11 ! 10 = 0"
    using th [where M = result11 and ?p1.0 = "plain_panel 2 1" and ?row0.0 = 3 and ?col0.0 = 3,
        THEN conjunct1, rule_format, OF example11, of 10]
    by (simp add: len11 example11_combos)
  have c: "3 \<le> coo_row result22 ! 7 \<and> coo_row result22 ! 7 < 3 + 3 * 1 * 2
        \<and> 3 \<le> coo_col result22 ! 7 \<and> coo_col result22 ! 7 < 3 + 3 * 1 * 2"
    using th [where M = result22 and ?p2.0 = "plain_panel 1 2" and ?row0.0 = 3 and ?col0.0 = 3,
        THEN conjunct2, THEN conjunct1, rule_format, OF example22, of 7]
    by (simp add: len22 example22_combos plain_panel_sel)
  have d: "0 \<le> coo_row result12 ! 3 \<and> coo_row result12 ! 3 < 0 + 3 * 1 * 1
        \<and> 3 \<le> coo_col result12 ! 3 \<and> coo_col result12 ! 3 < 3 + 3 * 1 * 1"
    using th [where M = result12 and ?p1.0 = "plain_panel 1 1" and ?p2.0 = "plain_panel 1 1"
        and ?row0.0 = 0 and ?col0.0 = 3, THEN conjunct2, THEN conjunct2, rule_format, of const_lib 1 1 0 0 6 3]
    by (simp add: len12 example12 plain_panel_sel)
  from a b c d example11 example22 example12 show ?thesis
    by (intro conjI) simp_all
qed

theorem written_pairs_inside_block_counterexample:
  "fkCBFxcte11 const_lib 1 1 (plain_panel 2 1) 0 9 3 3 = Inr result11
   \<and> 9 < length (coo_row result11)
   \<and> coo_row result11 ! 9 = 0 \<and> coo_col result11 ! 9 = 0
   \<and> \<not> (3 \<le> coo_row result11 ! 9)"
  using example11 by (simp add: result11_def)






text \<open>
  C8. The three returned lists have the same length: \<open>3*m1*n1*m1*n1\<close> for
  \<open>fkCBFxcte11\<close>, \<open>3*m2*n2*m2*n2\<close> for \<open>fkCBFycte22\<close> and \<open>4*m1*n1*m2*n2\<close> for
  \<open>fkCBFxycte12\<close>. In the single-edge procedures the slots after the written ones hold
  the row 0, the column 0 and the value 0. For a block on the diagonal (\<open>col0 = row0\<close>)
  of a panel with \<open>N = m*n\<close> these are \<open>3*N*(N - 1)/2\<close> of the \<open>3*N\<^sup>2\<close> slots: the share
  \<open>(N - 1)/(2*N)\<close>, which comes close to one half as \<open>N\<close> grows. In \<open>fkCBFxycte12\<close>,
  with no negative \<open>m\<close> or \<open>n\<close>, every slot is written.
\<close>

theorem returned_lengths:
  "(fkCBFxcte11 L kt kr p1 xcte1 sz row0 col0 = Inr M \<longrightarrow>
      int (length (coo_row M)) = 3 * m p1 * n p1 * m p1 * n p1
      \<and> length (coo_col M) = length (coo_row M)
      \<and> length (coo_data M) = length (coo_row M)
      \<and> 3 * length (xcte11_combos p1 row0 col0) \<le> length (coo_row M)
      \<and> (\<forall>t. 3 * length (xcte11_combos p1 row0 col0) \<le> t \<and> t < length (coo_row M) \<longrightarrow>
            coo_row M ! t = 0 \<and> coo_col M ! t = 0 \<and> coo_data M ! t = 0)
      \<and> (col0 = row0 \<and> 0 \<le> m p1 \<and> 0 \<le> n p1 \<longrightarrow>
            2 * (int (length (coo_row M)) - 3 * int (length (xcte11_combos p1 row0 col0)))
              = 3 * (m p1 * n p1) * (m p1 * n p1 - 1)))
   \<and> (fkCBFycte22 L kt kr p1 p2 ycte2 sz row0 col0 = Inr M \<longrightarrow>
      int (length (coo_row M)) = 3 * m p2 * n p2 * m p2 * n p2
      \<and> length (coo_col M) = length (coo_row M)
      \<and> length (coo_data M) = length (coo_row M)
      \<and> 3 * length (ycte22_combos p2 row0 col0) \<le> length (coo_row M)
      \<and> (\<forall>t. 3 * length (ycte22_combos p2 row0 col0) \<le> t \<and> t < length (coo_row M) \<longrightarrow>
            coo_row M ! t = 0 \<and> coo_col M ! t = 0 \<and> coo_data M ! t = 0)
      \<and> (col0 = row0 \<and> 0 \<le> m p2 \<and> 0 \<le> n p2 \<longrightarrow>
            2 * (int (length (coo_row M)) - 3 * int (length (ycte22_combos p2 row0 col0)))
              = 3 * (m p2 * n p2) * (m p2 * n p2 - 1)))
   \<and> (fkCBFxycte12 L kt kr p1 p2 xcte1 ycte2 sz row0 col0 = Inr M \<longrightarrow>
      int (length (coo_row M)) = 4 * m p1 * n p1 * m p2 * n p2
      \<and> length (coo_col M) = length (coo_row M)
      \<and> length (coo_data M) = length (coo_row M)
      \<and> (0 \<le> m p1 \<and> 0 \<le> n p1 \<and> 0 \<le> m p2 \<and> 0 \<le> n p2 \<longrightarrow>
            length (coo_row M) = 4 * length (xycte12_combos p1 p2)))"
proof (intro conjI impI)
  assume res: "fkCBFxcte11 L kt kr p1 xcte1 sz row0 col0 = Inr M"
  let ?N = "nat (3 * m p1 * n p1 * m p1 * n p1)"
  note M = fkCBFxcte11_Inr(1) [OF res]
  note le = xcte11_entries_length [of L kt kr p1 xcte1 row0 col0]
  have len: "length (coo_row M) = ?N" "length (coo_col M) = ?N" "length (coo_data M) = ?N"
    unfolding M by (simp_all add: padded_length le)
  show "int (length (coo_row M)) = 3 * m p1 * n p1 * m p1 * n p1"
    using len(1) fdim3_nonneg [of "m p1" "n p1"] by simp
  then show "2 * (int (length (coo_row M)) - 3 * int (length (xcte11_combos p1 row0 col0)))
      = 3 * (m p1 * n p1) * (m p1 * n p1 - 1)"
    if "col0 = row0 \<and> 0 \<le> m p1 \<and> 0 \<le> n p1"
    using that zero_slots_count [OF _ _ xcte11_combos_count, of p1 row0] by simp
  show "length (coo_col M) = length (coo_row M)" "length (coo_data M) = length (coo_row M)"
    using len by simp_all
  show "3 * length (xcte11_combos p1 row0 col0) \<le> length (coo_row M)"
    using le len(1) by (simp add: xcte11_entries_slots)
  show "\<forall>t. 3 * length (xcte11_combos p1 row0 col0) \<le> t \<and> t < length (coo_row M) \<longrightarrow>
      coo_row M ! t = 0 \<and> coo_col M ! t = 0 \<and> coo_data M ! t = 0"
    using xcte11_unwritten [OF res] by blast
next
  assume res: "fkCBFycte22 L kt kr p1 p2 ycte2 sz row0 col0 = Inr M"
  let ?N = "nat (3 * m p2 * n p2 * m p2 * n p2)"
  note M = fkCBFycte22_Inr(1) [OF res]
  note le = ycte22_entries_length [of L kt kr p2 ycte2 row0 col0]
  have len: "length (coo_row M) = ?N" "length (coo_col M) = ?N" "length (coo_data M) = ?N"
    unfolding M by (simp_all add: padded_length le)
  show "int (length (coo_row M)) = 3 * m p2 * n p2 * m p2 * n p2"
    using len(1) fdim3_nonneg [of "m p2" "n p2"] by simp
  then show "2 * (int (length (coo_row M)) - 3 * int (length (ycte22_combos p2 row0 col0)))
      = 3 * (m p2 * n p2) * (m p2 * n p2 - 1)"
    if "col0 = row0 \<and> 0 \<le> m p2 \<and> 0 \<le> n p2"
    using that zero_slots_count [OF _ _ ycte22_combos_count, of p2 row0] by simp
  show "length (coo_col M) = length (coo_row M)" "length (coo_data M) = length (coo_row M)"
    using len by simp_all
  show "3 * length (ycte22_combos p2 row0 col0) \<le> length (coo_row M)"
    using le len(1) by (simp add: ycte22_entries_slots)
  show "\<forall>t. 3 * length (ycte22_combos p2 row0 col0) \<le> t \<and> t < length (coo_row M) \<longrightarrow>
      coo_row M ! t = 0 \<and> coo_col M ! t = 0 \<and> coo_data M ! t = 0"
    using ycte22_unwritten [OF res] by blast
next
  assume res: "fkCBFxycte12 L kt kr p1 p2 xcte1 ycte2 sz row0 col0 = Inr M"
  let ?N = "nat (4 * m p1 * n p1 * m p2 * n p2)"
  note M = fkCBFxycte12_Inr(1) [OF res]
  note nonneg = fkCBFxycte12_Inr(4) [OF res]
  note le = xycte12_entries_length [OF nonneg, of L kt kr xcte1 ycte2 row0 col0]
  have len: "length (coo_row M) = ?N" "length (coo_col M) = ?N" "length (coo_data M) = ?N"
    unfolding M by (simp_all add: padded_length le)
  show "int (length (coo_row M)) = 4 * m p1 * n p1 * m p2 * n p2"
    using len(1) nonneg by simp
  show "length (coo_col M) = length (coo_row M)" "length (coo_data M) = length (coo_row M)"
    using len by simp_all
  show "length (coo_row M) = 4 * length (xycte12_combos p1 p2)"
    if "0 \<le> m p1 \<and> 0 \<le> n p1 \<and> 0 \<le> m p2 \<and> 0 \<le> n p2"
    using that len(1) xycte12_entries_full [of p1 p2 L kt kr xcte1 ycte2 row0 col0]
    by (simp add: xycte12_entries_slots)
qed


theorem returned_lengths_witness:
  "fkCBFxcte11 const_lib 1 1 (plain_panel 2 1) 0 9 3 3 = Inr result11
   \<and> int (length (coo_row result11)) = 3 * 2 * 1 * 2 * 1
   \<and> length (coo_data result11) = length (coo_row result11)
   \<and> coo_data result11 ! 10 = 0
   \<and> 2 * (int (length (coo_row result11)) - 3 * int (length (xcte11_combos (plain_panel 2 1) 3 3)))
        = 3 * (2 * 1) * (2 * 1 - 1)
   \<and> fkCBFycte22 const_lib 1 1 (plain_panel 1 1) (plain_panel 1 2) 0 9 3 3 = Inr result22
   \<and> int (length (coo_row result22)) = 3 * 1 * 2 * 1 * 2
   \<and> coo_data result22 ! 10 = 0
   \<and> fkCBFxycte12 const_lib 1 1 (plain_panel 1 1) (plain_panel 1 1) 0 0 6 0 3 = Inr result12
   \<and> int (length (coo_row result12)) = 4 * 1 * 1 * 1 * 1
   \<and> length (coo_row result12) = 4 * length (xycte12_combos (plain_panel 1 1) (plain_panel 1 1))"
proof -
  note th = returned_lengths
  note a = th [where M = result11 and ?p1.0 = "plain_panel 2 1" and ?row0.0 = 3 and ?col0.0 = 3,
      THEN conjunct1, rule_format, OF example11]
  note b = th [where M = result22 and ?p2.0 = "plain_panel 1 2" and ?row0.0 = 3 and ?col0.0 = 3,
      THEN conjunct2, THEN conjunct1, rule_format, OF example22]
  note c = th [where M = result12 and ?p1.0 = "plain_panel 1 1" and ?p2.0 = "plain_panel 1 1",
      THEN conjunct2, THEN conjunct2, rule_format, OF example12]
  have len: "length (coo_row result11) = 12" "length (coo_row result22) = 12"
    by (simp_all add: result11_def result22_def)
  from a have a5: "\<forall>t. 3 * length (xcte11_combos (plain_panel 2 1) 3 3) \<le> t
      \<and> t < length (coo_row result11) \<longrightarrow>
      coo_row result11 ! t = 0 \<and> coo_col result11 ! t = 0 \<and> coo_data result11 ! t = 0"
    by blast
  from b have b5: "\<forall>t. 3 * length (ycte22_combos (plain_panel 1 2) 3 3) \<le> t
      \<and> t < length (coo_row result22) \<longrightarrow>
      coo_row result22 ! t = 0 \<and> coo_col result22 ! t = 0 \<and> coo_data result22 ! t = 0"
    by blast
  have "int (length (coo_row result11)) = 3 * 2 * 1 * 2 * 1"
    using a by (simp add: plain_panel_sel)
  moreover have "length (coo_data result11) = length (coo_row result11)"
    using a by simp
  moreover have "coo_data result11 ! 10 = 0"
    using a5 [rule_format, of 10] by (simp add: example11_combos len)
  moreover have "2 * (int (length (coo_row result11))
        - 3 * int (length (xcte11_combos (plain_panel 2 1) 3 3))) = 3 * (2 * 1) * (2 * 1 - 1)"
    using a by (simp add: plain_panel_sel)
  moreover have "int (length (coo_row result22)) = 3 * 1 * 2 * 1 * 2"
    using b by (simp add: plain_panel_sel)
  moreover have "coo_data result22 ! 10 = 0"
    using b5 [rule_format, of 10] by (simp add: example22_combos len)
  moreover have "int (length (coo_row result12)) = 4 * 1 * 1 * 1 * 1"
    using c by (simp add: plain_panel_sel)
  moreover have "length (coo_row result12)
      = 4 * length (xycte12_combos (plain_panel 1 1) (plain_panel 1 1))"
    using c by (simp add: plain_panel_sel)
  ultimately show ?thesis
    using example11 example22 example12 by (intro conjI)
qed




text \<open>
  C10. The result of \<open>fkCBFycte22\<close> does not depend on its argument \<open>p1\<close>: two calls
  that agree on \<open>kt\<close>, \<open>kr\<close>, \<open>p2\<close>, \<open>ycte2\<close>, \<open>size\<close>, \<open>row0\<close> and \<open>col0\<close> return
  the same rows, columns and values (or fail alike), whatever the two first panels are.
\<close>

theorem fkCBFycte22_ignores_p1:
  "fkCBFycte22 L kt kr p1 p2 ycte2 sz row0 col0 = fkCBFycte22 L kt kr p1' p2 ycte2 sz row0 col0"
  unfolding fkCBFycte22_def ..

theorem fkCBFycte22_ignores_p1_witness:
  "fkCBFycte22 const_lib 1 1 (plain_panel 1 1) (plain_panel 1 2) 0 9 3 3 =
   fkCBFycte22 const_lib 1 1 (tagged_panel 2 3 5) (plain_panel 1 2) 0 9 3 3"
  by (rule fkCBFycte22_ignores_p1)

end
